theory Spec2Isabelle
  imports Main
begin

section \<open>Text\<close>

text \<open>
  A JavaScript string is a \<^typ>\<open>string\<close>: the list of the bytes of its UTF-8 form. The
  operations below are the ones the extension calls, with their ECMAScript meaning on
  ASCII text: white space is the ASCII white space of \<^verbatim>\<open>\s\<close> and of \<^verbatim>\<open>trim\<close>, and
  \<^verbatim>\<open>toLowerCase\<close> changes the letters A to Z only. Bytes above 127 pass through
  unchanged.
\<close>

definition isSpace :: "char \<Rightarrow> bool" where
  "isSpace c = (c \<in> set [CHR '' '', CHR 0x09, CHR 0x0A, CHR 0x0B, CHR 0x0C, CHR 0x0D])"

text \<open>\<^verbatim>\<open>s.trim()\<close>\<close>

definition trim :: "string \<Rightarrow> string" where
  "trim s = rev (dropWhile isSpace (rev (dropWhile isSpace s)))"

text \<open>
  \<^verbatim>\<open>s.split(sep)\<close> for a separator of one character: the pieces between the
  separators, so the empty string gives one empty piece.
\<close>

fun split_on :: "char \<Rightarrow> string \<Rightarrow> string list" where
  "split_on sep [] = [[]]"
| "split_on sep (c # cs) =
     (if c = sep then [] # split_on sep cs
      else (case split_on sep cs of [] \<Rightarrow> [[c]] | t # ts \<Rightarrow> (c # t) # ts))"

text \<open>
  \<^verbatim>\<open>s.split(/\s+/)\<close>: the pieces between the maximal runs of white space. A run at
  the start or at the end leaves an empty piece there, and the empty string gives one
  empty piece.
\<close>

function split_ws :: "string \<Rightarrow> string list" where
  "split_ws s =
     (if dropWhile (\<lambda>c. \<not> isSpace c) s = [] then [takeWhile (\<lambda>c. \<not> isSpace c) s]
      else takeWhile (\<lambda>c. \<not> isSpace c) s
             # split_ws (dropWhile isSpace (dropWhile (\<lambda>c. \<not> isSpace c) s)))"
  by pat_completeness auto
termination
proof (relation "measure length")
  show "wf (measure length)" by simp
next
  fix s :: string
  assume ne: "dropWhile (\<lambda>c. \<not> isSpace c) s \<noteq> []"
  then obtain c cs where r: "dropWhile (\<lambda>c. \<not> isSpace c) s = c # cs"
    by (cases "dropWhile (\<lambda>c. \<not> isSpace c) s") auto
  have "isSpace c"
    using hd_dropWhile [OF ne] r by simp
  then have "length (dropWhile isSpace (c # cs)) \<le> length cs"
    by (simp add: length_dropWhile_le)
  moreover have "length (c # cs) \<le> length s"
    using length_dropWhile_le [of "\<lambda>c. \<not> isSpace c" s] r by simp
  ultimately show "(dropWhile isSpace (dropWhile (\<lambda>c. \<not> isSpace c) s), s) \<in> measure length"
    using r by simp
qed

text \<open>\<^verbatim>\<open>s.toLowerCase()\<close>\<close>

definition lowerChar :: "char \<Rightarrow> char" where
  "lowerChar c =
     (if 65 \<le> (of_char c :: nat) \<and> (of_char c :: nat) \<le> 90 then char_of (of_char c + 32 :: nat)
      else c)"

definition toLowerCase :: "string \<Rightarrow> string" where
  "toLowerCase s = map lowerChar s"

text \<open>\<^verbatim>\<open>s.startsWith(p)\<close> and \<^verbatim>\<open>s.includes(p)\<close>\<close>

fun startsWith :: "string \<Rightarrow> string \<Rightarrow> bool" where
  "startsWith s [] = True"
| "startsWith [] (p # ps) = False"
| "startsWith (c # cs) (p # ps) = (c = p \<and> startsWith cs ps)"

fun str_includes :: "string \<Rightarrow> string \<Rightarrow> bool" where
  "str_includes [] p = (p = [])"
| "str_includes (c # cs) p = (startsWith (c # cs) p \<or> str_includes cs p)"

text \<open>\<^verbatim>\<open>xs.join(sep)\<close>\<close>

fun join_with :: "string \<Rightarrow> string list \<Rightarrow> string" where
  "join_with sep [] = []"
| "join_with sep [x] = x"
| "join_with sep (x # y # ys) = x @ sep @ join_with sep (y # ys)"

text \<open>
  The decimal text of a whole number, as a template literal prints it.
\<close>

fun showNat :: "nat \<Rightarrow> string" where
  "showNat n =
     (if n < 10 then [char_of (48 + n)]
      else showNat (n div 10) @ [char_of (48 + n mod 10)])"

declare showNat.simps [simp del]

text \<open>
  \<^verbatim>\<open>a || b\<close> on a string that may be undefined: the empty string and undefined are
  both falsy.
\<close>

fun or_default :: "string option \<Rightarrow> string \<Rightarrow> string" where
  "or_default None d = d"
| "or_default (Some s) d = (if s = [] then d else s)"

definition truthy :: "string option \<Rightarrow> bool" where
  "truthy v = (case v of None \<Rightarrow> False | Some s \<Rightarrow> s \<noteq> [])"

text \<open>What a template literal prints for a string that may be undefined.\<close>

fun template :: "string option \<Rightarrow> string" where
  "template None = ''undefined''"
| "template (Some s) = s"

declare split_ws.simps [simp del]

section \<open>The data model\<close>

text \<open>
  The interfaces \<^verbatim>\<open>Container\<close> and \<^verbatim>\<open>Image\<close> of the container utilities. An optional field
  (\<^verbatim>\<open>ports?\<close>, \<^verbatim>\<open>ipAddress?\<close>, \<^verbatim>\<open>os?\<close>, \<^verbatim>\<open>arch?\<close>) is an option, \<^const>\<open>None\<close> for undefined.
\<close>

record Container =
  container_id :: string
  container_name :: string
  container_image :: string
  container_status :: string
  container_ports :: "string option"
  container_created :: string
  container_ipAddress :: "string option"
  container_os :: "string option"
  container_arch :: "string option"

record Image =
  image_id :: string
  image_repository :: string
  image_tag :: string
  image_size :: string
  image_created :: string
  image_reference :: string

text \<open>
  What \<^verbatim>\<open>JSON.parse\<close> gives for the two listings, by the fields the code reads: every
  field may be missing. \<^verbatim>\<open>container list --format json\<close> prints an array of objects
  with \<^verbatim>\<open>configuration.id\<close>, \<^verbatim>\<open>configuration.hostname\<close>,
  \<^verbatim>\<open>configuration.image.reference\<close> and \<^verbatim>\<open>status\<close>; \<^verbatim>\<open>container image list --format json\<close>
  prints an array of objects with \<^verbatim>\<open>reference\<close>, \<^verbatim>\<open>descriptor.digest\<close> and
  \<^verbatim>\<open>descriptor.size\<close> (a whole number of bytes).
\<close>

record RawImageRef =
  ref_reference :: "string option"

record RawConfiguration =
  cfg_id :: "string option"
  cfg_hostname :: "string option"
  cfg_image :: "RawImageRef option"

record RawContainer =
  raw_configuration :: "RawConfiguration option"
  raw_status :: "string option"

record RawDescriptor =
  desc_digest :: "string option"
  desc_size :: "nat option"

record RawImage =
  raw_reference :: "string option"
  raw_descriptor :: "RawDescriptor option"

text \<open>One row of \<^verbatim>\<open>container ls\<close>, as \<^verbatim>\<open>parseContainerTable\<close> returns it.\<close>

record TableEntry =
  entry_id :: string
  entry_ipAddress :: "string option"
  entry_os :: "string option"
  entry_arch :: "string option"

section \<open>Effects\<close>

text \<open>
  A function that talks to the outside returns, beside its value, the calls it made, in
  order. \<^verbatim>\<open>execAsync\<close> is a parameter: it maps a command line to the text of the error
  it throws (\<^const>\<open>Inl\<close>) or to the standard output (\<^const>\<open>Inr\<close>). \<^verbatim>\<open>JSON.parse\<close> is a
  parameter too: \<^const>\<open>Inl\<close> with the text of the error when the output is not JSON of the
  listing's shape, \<^const>\<open>Inr\<close> with the entries otherwise. Each function calls
  \<^verbatim>\<open>execAsync\<close> once for a command line, so a map from command lines is enough. What the
  user answers to a prompt is an argument: \<^const>\<open>None\<close> when the prompt is dismissed.
\<close>

datatype event =
    ExecAsync string
  | ShowErrorMessage string
  | ShowWarningMessage string "string list"
  | ShowInformationMessage string "string list"
  | ShowInputBox string
  | TerminalSendText string string
  | OpenTextDocument string
  | Refresh
  | UpdateStatusBar
  | RefreshContainer
  | DisposePanel

type_synonym shell = "string \<Rightarrow> string + string"

section \<open>Listing containers\<close>

text \<open>
  \<^verbatim>\<open>parseContainerTable\<close>. The function given to \<^verbatim>\<open>lines.map\<close> is \<open>parseTableLine\<close>; a line
  of fewer than six tokens becomes the entry with the empty id, which the filter then
  drops.
\<close>

definition parseTableLine :: "string \<Rightarrow> TableEntry" where
  "parseTableLine line =
     (let parts = split_ws (trim line) in
      if length parts \<ge> 6 then
        \<lparr>entry_id = parts ! 0,
         entry_ipAddress = (if parts ! 5 \<noteq> ''N/A'' then Some (parts ! 5) else None),
         entry_os = Some (parts ! 2),
         entry_arch = Some (parts ! 3)\<rparr>
      else
        \<lparr>entry_id = [], entry_ipAddress = None, entry_os = None, entry_arch = None\<rparr>)"

definition parseContainerTable :: "string \<Rightarrow> TableEntry list" where
  "parseContainerTable output =
     (let lines = tl (split_on (CHR 0x0A) output) in
      filter (\<lambda>entry. entry_id entry \<noteq> []) (map parseTableLine lines))"

text \<open>
  The function \<^verbatim>\<open>listContainers\<close> gives to \<^verbatim>\<open>rawContainers.map\<close>: one record for one
  entry of the JSON listing, with the network and platform fields of the first table
  entry of the same id.
\<close>

definition emptyConfiguration :: RawConfiguration where
  "emptyConfiguration = \<lparr>cfg_id = None, cfg_hostname = None, cfg_image = None\<rparr>"

definition toContainer :: "TableEntry list \<Rightarrow> RawContainer \<Rightarrow> Container" where
  "toContainer containerTable rawContainer =
     (let config = (case raw_configuration rawContainer of None \<Rightarrow> emptyConfiguration | Some c \<Rightarrow> c);
          ident = or_default (cfg_id config) ''unknown'';
          image = or_default (case cfg_image config of None \<Rightarrow> None | Some i \<Rightarrow> ref_reference i)
                    ''unknown'';
          tableEntry = find (\<lambda>entry. entry_id entry = ident) containerTable
      in \<lparr>container_id = ident,
          container_name = or_default (cfg_hostname config) ident,
          container_image = image,
          container_status = or_default (raw_status rawContainer) ''unknown'',
          container_ports = Some [],
          container_created = ''unknown'',
          container_ipAddress = (case tableEntry of None \<Rightarrow> None | Some e \<Rightarrow> entry_ipAddress e),
          container_os = (case tableEntry of None \<Rightarrow> None | Some e \<Rightarrow> entry_os e),
          container_arch = (case tableEntry of None \<Rightarrow> None | Some e \<Rightarrow> entry_arch e)\<rparr>)"

definition listJsonCmd :: "bool \<Rightarrow> string" where
  "listJsonCmd all = (if all then ''container list --all --format json'' else ''container list --format json'')"

definition listTableCmd :: "bool \<Rightarrow> string" where
  "listTableCmd all = (if all then ''container ls --all'' else ''container ls'')"

text \<open>
  The body of the \<^verbatim>\<open>try\<close> of \<^verbatim>\<open>listContainers\<close>: the calls made, and the records or
  the text of the error thrown.
\<close>

definition listContainers_try ::
  "shell \<Rightarrow> (string \<Rightarrow> string + RawContainer list) \<Rightarrow> bool \<Rightarrow> event list \<times> (string + Container list)"
where
  "listContainers_try exec parse all =
     (let jsonCmd = listJsonCmd all in
      case exec jsonCmd of
        Inl err \<Rightarrow> ([ExecAsync jsonCmd], Inl err)
      | Inr jsonOutput \<Rightarrow>
          (case parse jsonOutput of
             Inl err \<Rightarrow> ([ExecAsync jsonCmd], Inl err)
           | Inr rawContainers \<Rightarrow>
               (let tableCmd = listTableCmd all in
                case exec tableCmd of
                  Inl err \<Rightarrow> ([ExecAsync jsonCmd, ExecAsync tableCmd], Inl err)
                | Inr tableOutput \<Rightarrow>
                    (let containerTable = parseContainerTable tableOutput in
                     ([ExecAsync jsonCmd, ExecAsync tableCmd],
                      Inr (map (toContainer containerTable) rawContainers))))))"

text \<open>\<^verbatim>\<open>listContainers\<close>: the \<^verbatim>\<open>catch\<close> shows the error and returns the empty list.\<close>

definition listContainers ::
  "shell \<Rightarrow> (string \<Rightarrow> string + RawContainer list) \<Rightarrow> bool \<Rightarrow> Container list \<times> event list"
where
  "listContainers exec parse all =
     (case listContainers_try exec parse all of
        (evs, Inr containers) \<Rightarrow> (containers, evs)
      | (evs, Inl err) \<Rightarrow> ([], evs @ [ShowErrorMessage (''Failed to list containers: '' @ err)]))"

section \<open>Listing images\<close>

text \<open>
  The function \<^verbatim>\<open>listImages\<close> gives to \<^verbatim>\<open>rawImages.map\<close>. The destructuring
  \<^verbatim>\<open>[repositoryWithTag] = reference.split('@')\<close> takes the first piece, and
  \<^verbatim>\<open>[repository, tag] = repositoryWithTag.split(':')\<close> the first and the second piece,
  the second undefined when there is none (\<^verbatim>\<open>split\<close> never returns the empty array).
  \<^verbatim>\<open>Math.round(size / 1024)\<close> of a whole number of bytes is \<open>(size + 512) div 1024\<close>.
\<close>

fun element :: "'a list \<Rightarrow> nat \<Rightarrow> 'a option" where
  "element [] n = None"
| "element (x # xs) 0 = Some x"
| "element (x # xs) (Suc n) = element xs n"

definition toImage :: "RawImage \<Rightarrow> Image" where
  "toImage rawImage =
     (let reference = or_default (raw_reference rawImage) [];
          repositoryWithTag =
            (case split_on (CHR ''@'') reference of [] \<Rightarrow> [] | piece # rest \<Rightarrow> piece);
          pieces = split_on (CHR '':'') repositoryWithTag;
          repository = element pieces 0;
          tag = element pieces 1;
          digest = (case raw_descriptor rawImage of None \<Rightarrow> None | Some d \<Rightarrow> desc_digest d);
          bytes = (case raw_descriptor rawImage of None \<Rightarrow> None | Some d \<Rightarrow> desc_size d)
      in \<lparr>image_id = or_default digest [],
          image_repository = or_default repository ''unknown'',
          image_tag = or_default tag ''latest'',
          image_size =
            (case bytes of
               None \<Rightarrow> ''unknown''
             | Some n \<Rightarrow> if n = 0 then ''unknown'' else showNat ((n + 512) div 1024) @ '' KB''),
          image_created = ''unknown'',
          image_reference = reference\<rparr>)"

definition listImages_try ::
  "shell \<Rightarrow> (string \<Rightarrow> string + RawImage list) \<Rightarrow> event list \<times> (string + Image list)"
where
  "listImages_try exec parse =
     (case exec ''container image list --format json'' of
        Inl err \<Rightarrow> ([ExecAsync ''container image list --format json''], Inl err)
      | Inr stdout \<Rightarrow>
          (case parse stdout of
             Inl err \<Rightarrow> ([ExecAsync ''container image list --format json''], Inl err)
           | Inr rawImages \<Rightarrow>
               ([ExecAsync ''container image list --format json''], Inr (map toImage rawImages))))"

definition listImages ::
  "shell \<Rightarrow> (string \<Rightarrow> string + RawImage list) \<Rightarrow> Image list \<times> event list"
where
  "listImages exec parse =
     (case listImages_try exec parse of
        (evs, Inr images) \<Rightarrow> (images, evs)
      | (evs, Inl err) \<Rightarrow> ([], evs @ [ShowErrorMessage (''Failed to list images: '' @ err)]))"

section \<open>The detail rows of a container\<close>

text \<open>
  The labels of the tree view start with a pictograph. Each is written here by the bytes
  of its UTF-8 form, followed by the label's text as the provider has it.
\<close>

definition label_containerId :: string where
  "label_containerId = [CHR 0xF0, CHR 0x9F, CHR 0x93, CHR 0x8B] @ '' Container ID''"

definition label_ipAddress :: string where
  "label_ipAddress = [CHR 0xF0, CHR 0x9F, CHR 0x8C, CHR 0x90] @ '' IP Address''"

definition label_image :: string where
  "label_image = [CHR 0xF0, CHR 0x9F, CHR 0x93, CHR 0xA6] @ '' Image''"

definition label_status :: string where
  "label_status = [CHR 0xF0, CHR 0x9F, CHR 0x93, CHR 0x8A] @ '' Status''"

definition icon_running :: string where
  "icon_running = [CHR 0xE2, CHR 0x96, CHR 0xB6, CHR 0xEF, CHR 0xB8, CHR 0x8F]"

definition icon_stopped :: string where
  "icon_stopped = [CHR 0xE2, CHR 0x8F, CHR 0xB9, CHR 0xEF, CHR 0xB8, CHR 0x8F]"

definition label_baseUrl :: string where
  "label_baseUrl = [CHR 0xF0, CHR 0x9F, CHR 0x8C, CHR 0x8D] @ '' Base URL''"

definition label_ssh :: string where
  "label_ssh = [CHR 0xF0, CHR 0x9F, CHR 0x96, CHR 0xA5, CHR 0xEF, CHR 0xB8, CHR 0x8F] @ '' SSH Access''"

definition label_platform :: string where
  "label_platform = [CHR 0xF0, CHR 0x9F, CHR 0x92, CHR 0xBB] @ '' Platform''"

definition label_created :: string where
  "label_created = [CHR 0xF0, CHR 0x9F, CHR 0x95, CHR 0x92] @ '' Created''"

definition label_redis :: string where
  "label_redis = [CHR 0xF0, CHR 0x9F, CHR 0x94, CHR 0x97] @ '' Redis CLI''"

definition label_postgres :: string where
  "label_postgres = [CHR 0xF0, CHR 0x9F, CHR 0x90, CHR 0x98] @ '' PostgreSQL''"

definition label_mysql :: string where
  "label_mysql = [CHR 0xF0, CHR 0x9F, CHR 0x90, CHR 0xAC] @ '' MySQL/MariaDB''"

definition label_mongo :: string where
  "label_mongo = [CHR 0xF0, CHR 0x9F, CHR 0x8D, CHR 0x83] @ '' MongoDB''"

definition label_cassandra :: string where
  "label_cassandra = [CHR 0xF0, CHR 0x9F, CHR 0x94, CHR 0xB8] @ '' Cassandra''"

definition label_webServer :: string where
  "label_webServer = [CHR 0xF0, CHR 0x9F, CHR 0x8C, CHR 0x90] @ '' Web Server''"

definition label_node :: string where
  "label_node = [CHR 0xF0, CHR 0x9F, CHR 0x93, CHR 0x97] @ '' Node.js App''"

definition label_python :: string where
  "label_python = [CHR 0xF0, CHR 0x9F, CHR 0x90, CHR 0x8D] @ '' Python App''"

definition label_java :: string where
  "label_java = [CHR 0xE2, CHR 0x98, CHR 0x95] @ '' Java App''"

definition label_rabbitmq :: string where
  "label_rabbitmq = [CHR 0xF0, CHR 0x9F, CHR 0x90, CHR 0xB0] @ '' RabbitMQ Management''"

definition label_kafka :: string where
  "label_kafka = [CHR 0xF0, CHR 0x9F, CHR 0x93, CHR 0xA8] @ '' Kafka Bootstrap''"

definition label_elasticsearch :: string where
  "label_elasticsearch = [CHR 0xF0, CHR 0x9F, CHR 0x94, CHR 0x8D] @ '' Elasticsearch''"

definition label_jenkins :: string where
  "label_jenkins = [CHR 0xF0, CHR 0x9F, CHR 0x94, CHR 0xA7] @ '' Jenkins''"

definition label_gitlab :: string where
  "label_gitlab = [CHR 0xF0, CHR 0x9F, CHR 0xA6, CHR 0x8A] @ '' GitLab''"

definition label_defaultWeb :: string where
  "label_defaultWeb = [CHR 0xF0, CHR 0x9F, CHR 0x8C, CHR 0x90] @ '' Default Web Port''"

definition label_commonPorts :: string where
  "label_commonPorts = [CHR 0xF0, CHR 0x9F, CHR 0x94, CHR 0x97] @ '' Common Ports''"

text \<open>The class \<^verbatim>\<open>ContainerDetailItem\<close>, by the arguments of its constructor.\<close>

record ContainerDetailItem =
  detail_label :: string
  detail_text :: string
  detail_type :: string
  detail_copyValue :: "string option"

record ConnectionExample =
  example_label :: string
  example_text :: string
  example_copyValue :: string

text \<open>
  \<^verbatim>\<open>getConnectionExamples\<close>: one chain of \<^verbatim>\<open>if\<close> and \<^verbatim>\<open>else if\<close>, so the first fragment
  found in the lower-cased image reference decides. \<^verbatim>\<open>container.ipAddress!\<close> is printed
  into the templates.
\<close>

definition example :: "string \<Rightarrow> string \<Rightarrow> ConnectionExample" where
  "example label text = \<lparr>example_label = label, example_text = text, example_copyValue = text\<rparr>"

definition getConnectionExamples :: "Container \<Rightarrow> ConnectionExample list" where
  "getConnectionExamples container =
     (let ip = template (container_ipAddress container);
          imageLower = toLowerCase (container_image container)
      in
      if str_includes imageLower ''redis'' then
        [example label_redis (''redis-cli -h '' @ ip @ '' -p 6379'')]
      else if str_includes imageLower ''postgres'' \<or> str_includes imageLower ''postgresql'' then
        [example label_postgres (''psql -h '' @ ip @ '' -p 5432 -U postgres'')]
      else if str_includes imageLower ''mysql'' \<or> str_includes imageLower ''mariadb'' then
        (let tool = (if str_includes imageLower ''mariadb'' then ''mariadb'' else ''mysql'') in
         [example label_mysql (tool @ '' -h '' @ ip @ '' -P 3306 -u root -p'')])
      else if str_includes imageLower ''mongo'' then
        [example label_mongo (''mongosh mongodb://'' @ ip @ '':27017'')]
      else if str_includes imageLower ''cassandra'' then
        [example label_cassandra (''cqlsh '' @ ip @ '' 9042'')]
      else if str_includes imageLower ''nginx'' \<or> str_includes imageLower ''apache''
              \<or> str_includes imageLower ''httpd'' then
        [example label_webServer (''curl http://'' @ ip @ '':80'')]
      else if str_includes imageLower ''node'' \<or> str_includes imageLower ''express'' then
        [example label_node (''curl http://'' @ ip @ '':3000'')]
      else if str_includes imageLower ''python'' \<or> str_includes imageLower ''flask''
              \<or> str_includes imageLower ''django'' then
        [example label_python (''curl http://'' @ ip @ '':8000'')]
      else if str_includes imageLower ''java'' \<or> str_includes imageLower ''spring''
              \<or> str_includes imageLower ''tomcat'' then
        [example label_java (''curl http://'' @ ip @ '':8080'')]
      else if str_includes imageLower ''rabbitmq'' then
        [example label_rabbitmq (''http://'' @ ip @ '':15672'')]
      else if str_includes imageLower ''kafka'' then
        [example label_kafka (ip @ '':9092'')]
      else if str_includes imageLower ''elasticsearch'' then
        [example label_elasticsearch (''curl http://'' @ ip @ '':9200'')]
      else if str_includes imageLower ''jenkins'' then
        [example label_jenkins (''http://'' @ ip @ '':8080'')]
      else if str_includes imageLower ''gitlab'' then
        [example label_gitlab (''http://'' @ ip @ '':80'')]
      else
        (if str_includes imageLower ''web'' \<or> str_includes imageLower ''server''
            \<or> str_includes imageLower ''api''
         then [example label_defaultWeb (''http://'' @ ip @ '':8080'')] else [])
        @ [\<lparr>example_label = label_commonPorts,
             example_text = ip @ '':PORT (80, 8080, 3000, 5000)'',
             example_copyValue = ip @ '':''\<rparr>])"

text \<open>
  \<^verbatim>\<open>getContainerDetails\<close>: the rows are pushed in this order, each \<open>details\<close> below
  being the array after one more step.
\<close>

definition detailItem :: "string \<Rightarrow> string \<Rightarrow> string \<Rightarrow> string option \<Rightarrow> ContainerDetailItem" where
  "detailItem label text type copyValue =
     \<lparr>detail_label = label, detail_text = text, detail_type = type, detail_copyValue = copyValue\<rparr>"

definition getContainerDetails :: "Container \<Rightarrow> ContainerDetailItem list" where
  "getContainerDetails container =
     (let isRunning = str_includes (toLowerCase (container_status container)) ''running'';
          address = template (container_ipAddress container);
          details = [detailItem label_containerId (container_id container) ''copy-id''
                       (Some (container_id container))];
          details =
            (if truthy (container_ipAddress container)
             then details @ [detailItem label_ipAddress address ''copy-ip'' (Some address)]
             else details);
          details = details @ [detailItem label_image (container_image container) ''copy-image''
                       (Some (container_image container))];
          statusIcon = (if isRunning then icon_running else icon_stopped);
          details = details @ [detailItem label_status (statusIcon @ '' '' @ container_status container)
                       ''status'' None];
          details =
            (if truthy (container_ipAddress container) \<and> isRunning
             then details
               @ map (\<lambda>e. detailItem (example_label e) (example_text e) ''copy-command''
                            (Some (example_copyValue e)))
                   (getConnectionExamples container)
               @ [detailItem label_baseUrl (''http://'' @ address) ''copy-url''
                    (Some (''http://'' @ address)),
                  detailItem label_ssh (''ssh user@'' @ address) ''copy-command''
                    (Some (''ssh user@'' @ address))]
             else details);
          details =
            (if truthy (container_os container) \<and> truthy (container_arch container)
             then details
               @ [detailItem label_platform
                    (template (container_os container) @ ''/'' @ template (container_arch container))
                    ''platform'' None]
             else details);
          details =
            (if container_created container \<noteq> [] \<and> container_created container \<noteq> ''Unknown''
             then details @ [detailItem label_created (container_created container) ''created'' None]
             else details)
      in details)"

section \<open>The actions of the container manager\<close>

text \<open>
  Each action returns its result and the calls it made. One \<^const>\<open>TerminalSendText\<close> stands
  for the three calls that create a terminal of the given name, send it the text and
  show it.
\<close>

definition startContainer :: "shell \<Rightarrow> string \<Rightarrow> bool \<times> event list" where
  "startContainer exec containerId =
     (let cmd = ''container start '' @ containerId in
      case exec cmd of
        Inr out \<Rightarrow>
          (True, [ExecAsync cmd,
                  ShowInformationMessage (''Container '' @ containerId @ '' started successfully'') []])
      | Inl err \<Rightarrow> (False, [ExecAsync cmd, ShowErrorMessage (''Failed to start container: '' @ err)]))"

definition stopContainer :: "shell \<Rightarrow> string \<Rightarrow> bool \<times> event list" where
  "stopContainer exec containerId =
     (let cmd = ''container stop '' @ containerId in
      case exec cmd of
        Inr out \<Rightarrow>
          (True, [ExecAsync cmd,
                  ShowInformationMessage (''Container '' @ containerId @ '' stopped successfully'') []])
      | Inl err \<Rightarrow> (False, [ExecAsync cmd, ShowErrorMessage (''Failed to stop container: '' @ err)]))"

definition removeContainer :: "shell \<Rightarrow> string \<Rightarrow> bool \<Rightarrow> bool \<times> event list" where
  "removeContainer exec containerId force =
     (let forceFlag = (if force then '' --force'' else []);
          cmd = ''container delete'' @ forceFlag @ '' '' @ containerId in
      case exec cmd of
        Inr out \<Rightarrow>
          (True, [ExecAsync cmd,
                  ShowInformationMessage (''Container '' @ containerId @ '' removed successfully'') []])
      | Inl err \<Rightarrow> (False, [ExecAsync cmd, ShowErrorMessage (''Failed to remove container: '' @ err)]))"

definition removeImage :: "shell \<Rightarrow> string \<Rightarrow> bool \<times> event list" where
  "removeImage exec imageId =
     (let cmd = ''container image delete '' @ imageId in
      case exec cmd of
        Inr out \<Rightarrow>
          (True, [ExecAsync cmd,
                  ShowInformationMessage (''Image '' @ imageId @ '' removed successfully'') []])
      | Inl err \<Rightarrow> (False, [ExecAsync cmd, ShowErrorMessage (''Failed to remove image: '' @ err)]))"

definition streamContainerLogs :: "string \<Rightarrow> string option \<Rightarrow> event list" where
  "streamContainerLogs containerId containerName =
     [TerminalSendText (''Logs: '' @ or_default containerName containerId)
        (''container logs --follow '' @ containerId)]"

text \<open>
  The two inspections return what \<^verbatim>\<open>JSON.parse\<close> gives, of a type \<^typ>\<open>'j\<close> that stays
  open, or \<^const>\<open>None\<close> for the \<^verbatim>\<open>null\<close> of the \<^verbatim>\<open>catch\<close>.
\<close>

definition inspectContainer ::
  "shell \<Rightarrow> (string \<Rightarrow> string + 'j) \<Rightarrow> string \<Rightarrow> 'j option \<times> event list"
where
  "inspectContainer exec parse containerId =
     (let cmd = ''container inspect '' @ containerId in
      case exec cmd of
        Inl err \<Rightarrow> (None, [ExecAsync cmd, ShowErrorMessage (''Failed to inspect container: '' @ err)])
      | Inr stdout \<Rightarrow>
          (case parse stdout of
             Inl err \<Rightarrow>
               (None, [ExecAsync cmd, ShowErrorMessage (''Failed to inspect container: '' @ err)])
           | Inr v \<Rightarrow> (Some v, [ExecAsync cmd])))"

definition inspectImageJson ::
  "shell \<Rightarrow> (string \<Rightarrow> string + 'j) \<Rightarrow> string \<Rightarrow> 'j option \<times> event list"
where
  "inspectImageJson exec parse imageReference =
     (let cmd = ''container image inspect '' @ imageReference in
      case exec cmd of
        Inl err \<Rightarrow> (None, [ExecAsync cmd, ShowErrorMessage (''Failed to inspect image: '' @ err)])
      | Inr stdout \<Rightarrow>
          (case parse stdout of
             Inl err \<Rightarrow> (None, [ExecAsync cmd, ShowErrorMessage (''Failed to inspect image: '' @ err)])
           | Inr v \<Rightarrow> (Some v, [ExecAsync cmd])))"

definition buildImage :: "string \<Rightarrow> string option \<Rightarrow> string option \<Rightarrow> bool \<times> event list" where
  "buildImage contextPath tag dockerfile =
     (let cmd = ''container build '' @ contextPath;
          cmd = (if truthy tag then cmd @ '' --tag '' @ template tag else cmd);
          cmd = (if truthy dockerfile then cmd @ '' --file '' @ template dockerfile else cmd)
      in (True, [TerminalSendText ''Container Build'' cmd]))"

definition pullImage :: "string \<Rightarrow> bool \<times> event list" where
  "pullImage img = (True, [TerminalSendText ''Image Pull'' (''container image pull '' @ img)])"

definition execInContainer :: "string \<Rightarrow> string \<Rightarrow> event list" where
  "execInContainer containerId command =
     [TerminalSendText (''Container Exec - '' @ containerId)
        (''container exec --interactive --tty '' @ containerId @ '' '' @ command)]"

text \<open>
  \<^verbatim>\<open>pruneImages\<close> asks first; \<open>answer\<close> is the button the user chose.
\<close>

definition pruneImages :: "shell \<Rightarrow> string option \<Rightarrow> bool \<times> event list" where
  "pruneImages exec answer =
     (let ask = ShowWarningMessage
            ''Are you sure you want to prune unused images? This will remove all dangling images.''
            [''Yes'', ''No''] in
      if answer = Some ''Yes'' then
        (case exec ''container image prune --force'' of
           Inr out \<Rightarrow>
             (True, [ask, ExecAsync ''container image prune --force'',
                     ShowInformationMessage ''Images pruned successfully'' []])
         | Inl err \<Rightarrow>
             (False, [ask, ExecAsync ''container image prune --force'',
                      ShowErrorMessage (''Failed to prune images: '' @ err)]))
      else (False, [ask]))"

section \<open>The command line of an advanced run\<close>

text \<open>
  \<^verbatim>\<open>cpus\<close> is a JavaScript number, which the run form reads with \<^verbatim>\<open>parseFloat\<close>. The
  numbers are a type \<^typ>\<open>'n\<close> that stays open, and what the code does with one is a
  parameter: whether it is truthy (zero and NaN are not), the text a template literal
  prints for it, and \<^verbatim>\<open>parseFloat\<close>.
\<close>

record 'n numbers =
  number_truthy :: "'n \<Rightarrow> bool"
  number_text :: "'n \<Rightarrow> string"
  number_parseFloat :: "string \<Rightarrow> 'n"

text \<open>The options of \<^verbatim>\<open>runContainerAdvanced\<close>, every one optional.\<close>

record 'n RunOptions =
  opt_name :: "string option"
  opt_ports :: "string list option"
  opt_referencePorts :: "string list option"
  opt_volumes :: "string list option"
  opt_env :: "string list option"
  opt_detach :: "bool option"
  opt_interactive :: "bool option"
  opt_tty :: "bool option"
  opt_remove :: "bool option"
  opt_command :: "string option"
  opt_workdir :: "string option"
  opt_user :: "string option"
  opt_entrypoint :: "string option"
  opt_cpus :: "'n option"
  opt_memory :: "string option"
  opt_network :: "string option"
  opt_labels :: "string list option"
  opt_dns :: "string list option"

text \<open>\<^verbatim>\<open>options?.field\<close>, and the truth of a flag that may be undefined.\<close>

definition field :: "'o option \<Rightarrow> ('o \<Rightarrow> 'a option) \<Rightarrow> 'a option" where
  "field options f = (case options of None \<Rightarrow> None | Some opts \<Rightarrow> f opts)"

definition isSet :: "bool option \<Rightarrow> bool" where
  "isSet v = (v = Some True)"

text \<open>
  \<^verbatim>\<open>items.forEach(item => { cmd += flag + item })\<close> under \<^verbatim>\<open>if (items)\<close>: an array, also
  the empty one, is truthy.
\<close>

definition appendEach :: "string \<Rightarrow> string list option \<Rightarrow> string \<Rightarrow> string" where
  "appendEach flag items cmd =
     (case items of None \<Rightarrow> cmd | Some xs \<Rightarrow> foldl (\<lambda>cmd item. cmd @ flag @ item) cmd xs)"

text \<open>
  The text \<^verbatim>\<open>runContainerAdvanced\<close> sends to the terminal: \<open>cmd\<close> after each of its
  statements, in the order of the source. The parameter \<^verbatim>\<open>image\<close> is \<open>img\<close> here.
\<close>

definition runCommandLine :: "'n numbers \<Rightarrow> string \<Rightarrow> 'n RunOptions option \<Rightarrow> string" where
  "runCommandLine js img options =
     (let cmd = ''container run'';
          cmd = (if isSet (field options opt_detach) then cmd @ '' --detach'' else cmd);
          cmd = (if isSet (field options opt_interactive) then cmd @ '' --interactive'' else cmd);
          cmd = (if isSet (field options opt_tty) then cmd @ '' --tty'' else cmd);
          cmd = (if isSet (field options opt_remove) then cmd @ '' --rm'' else cmd);
          cmd = (if truthy (field options opt_name)
                 then cmd @ '' --name '' @ template (field options opt_name) else cmd);
          cmd = (if truthy (field options opt_workdir)
                 then cmd @ '' --workdir '' @ [CHR 0x22] @ template (field options opt_workdir)
                        @ [CHR 0x22]
                 else cmd);
          cmd = (if truthy (field options opt_user)
                 then cmd @ '' --user '' @ template (field options opt_user) else cmd);
          cmd = (if truthy (field options opt_entrypoint)
                 then cmd @ '' --entrypoint '' @ [CHR 0x22] @ template (field options opt_entrypoint)
                        @ [CHR 0x22]
                 else cmd);
          cmd = (case field options opt_cpus of
                   None \<Rightarrow> cmd
                 | Some n \<Rightarrow>
                     if number_truthy js n then cmd @ '' --cpus '' @ number_text js n else cmd);
          cmd = (if truthy (field options opt_memory)
                 then cmd @ '' --memory '' @ template (field options opt_memory) else cmd);
          cmd = appendEach '' --dns '' (field options opt_dns) cmd;
          cmd = appendEach '' -v '' (field options opt_volumes) cmd;
          cmd = appendEach '' -e '' (field options opt_env) cmd;
          cmd = appendEach '' -l '' (field options opt_labels) cmd;
          cmd = cmd @ '' '' @ img;
          cmd = (if truthy (field options opt_command)
                 then cmd @ '' '' @ template (field options opt_command) else cmd)
      in cmd)"

text \<open>
  The notice shown two seconds after the run when reference ports were given, and the
  terminal opened when the user picks its button (\<open>selection\<close>).
\<close>

definition portsNotice :: "'n RunOptions option \<Rightarrow> string option \<Rightarrow> event list" where
  "portsNotice options selection =
     (case field options opt_referencePorts of
        None \<Rightarrow> []
      | Some referencePorts \<Rightarrow>
          if length referencePorts > 0 then
            (let portsList = join_with '', '' referencePorts in
             ShowInformationMessage
               (''Container started! Use '' @ [CHR 0x27] @ ''container ls'' @ [CHR 0x27]
                  @ '' to get the IP address, then access ports '' @ portsList
                  @ '' directly on that IP.'')
               [''Show Container List'']
             # (if selection = Some ''Show Container List''
                then [TerminalSendText ''Container List'' ''container ls''] else []))
          else [])"

definition runContainerAdvanced ::
  "'n numbers \<Rightarrow> string \<Rightarrow> 'n RunOptions option \<Rightarrow> string option \<Rightarrow> bool \<times> event list"
where
  "runContainerAdvanced js img options selection =
     (True, TerminalSendText ''Container Run'' (runCommandLine js img options)
              # portsNotice options selection)"

definition runContainer ::
  "'n numbers \<Rightarrow> string \<Rightarrow> 'n RunOptions option \<Rightarrow> string option \<Rightarrow> bool \<times> event list"
where
  "runContainer js img options selection = runContainerAdvanced js img options selection"

section \<open>The commands of the extension\<close>

text \<open>
  The handlers registered at activation, one definition per command, named after the
  command. A tree item that is missing (\<^verbatim>\<open>item && item.container\<close> fails) is \<^const>\<open>None\<close>.
  \<open>answer\<close> is the button chosen in a warning prompt and the text arguments are what the
  input boxes return, \<^const>\<open>None\<close> when the user cancels. A notice that is scheduled for
  later stands in the list where it is scheduled. \<^const>\<open>Refresh\<close> is the refresh of the tree
  and \<^const>\<open>UpdateStatusBar\<close> the call of \<^verbatim>\<open>updateStatusBar\<close>; both list the containers
  again afterwards and are not unfolded here.
\<close>

definition displayName :: "Container \<Rightarrow> string" where
  "displayName container = or_default (Some (container_name container)) (container_id container)"

definition quoted :: "string \<Rightarrow> string" where
  "quoted s = [CHR 0x22] @ s @ [CHR 0x22]"

definition cmd_pruneImages :: "shell \<Rightarrow> string option \<Rightarrow> event list" where
  "cmd_pruneImages exec answer =
     (case pruneImages exec answer of (success, evs) \<Rightarrow> if success then evs @ [Refresh] else evs)"

definition cmd_startContainer :: "shell \<Rightarrow> Container option \<Rightarrow> event list" where
  "cmd_startContainer exec item =
     (case item of
        None \<Rightarrow> []
      | Some container \<Rightarrow>
          snd (startContainer exec (container_id container)) @ [Refresh, UpdateStatusBar])"

definition cmd_stopContainer :: "shell \<Rightarrow> Container option \<Rightarrow> event list" where
  "cmd_stopContainer exec item =
     (case item of
        None \<Rightarrow> []
      | Some container \<Rightarrow>
          snd (stopContainer exec (container_id container)) @ [Refresh, UpdateStatusBar])"

definition cmd_removeContainer :: "shell \<Rightarrow> Container option \<Rightarrow> string option \<Rightarrow> event list" where
  "cmd_removeContainer exec item answer =
     (case item of
        None \<Rightarrow> []
      | Some container \<Rightarrow>
          (let ask = ShowWarningMessage
                 (''Are you sure you want to remove container '' @ quoted (displayName container)
                    @ ''?'')
                 [''Yes'', ''No''] in
           if answer = Some ''Yes'' then
             ask # snd (removeContainer exec (container_id container) False)
               @ [Refresh, UpdateStatusBar]
           else [ask]))"

definition cmd_forceRemoveContainer :: "shell \<Rightarrow> Container option \<Rightarrow> string option \<Rightarrow> event list" where
  "cmd_forceRemoveContainer exec item answer =
     (case item of
        None \<Rightarrow> []
      | Some container \<Rightarrow>
          (let ask = ShowWarningMessage
                 (''Are you sure you want to force remove container ''
                    @ quoted (displayName container) @ ''?'')
                 [''Yes'', ''No''] in
           if answer = Some ''Yes'' then
             ask # snd (removeContainer exec (container_id container) True)
               @ [Refresh, UpdateStatusBar]
           else [ask]))"

definition cmd_inspectContainer ::
  "shell \<Rightarrow> (string \<Rightarrow> string + 'j) \<Rightarrow> ('j \<Rightarrow> bool) \<Rightarrow> ('j \<Rightarrow> string) \<Rightarrow> Container \<Rightarrow> event list"
where
  "cmd_inspectContainer exec parse truthyJson stringify container =
     (case inspectContainer exec parse (container_id container) of
        (None, evs) \<Rightarrow> evs
      | (Some inspection, evs) \<Rightarrow>
          if truthyJson inspection then evs @ [OpenTextDocument (stringify inspection)] else evs)"

definition cmd_containerLogs :: "Container option \<Rightarrow> event list" where
  "cmd_containerLogs item =
     (case item of
        None \<Rightarrow> []
      | Some container \<Rightarrow>
          streamContainerLogs (container_id container) (Some (container_name container)))"

definition cmd_execInContainer :: "Container option \<Rightarrow> string option \<Rightarrow> event list" where
  "cmd_execInContainer item command =
     (case item of
        None \<Rightarrow> []
      | Some container \<Rightarrow>
          ShowInputBox ''Enter command to execute''
          # (if truthy command then execInContainer (container_id container) (template command)
             else []))"

definition cmd_removeImage :: "shell \<Rightarrow> Image option \<Rightarrow> string option \<Rightarrow> event list" where
  "cmd_removeImage exec item answer =
     (case item of
        None \<Rightarrow> []
      | Some img \<Rightarrow>
          (let ask = ShowWarningMessage
                 (''Are you sure you want to remove image ''
                    @ quoted (image_repository img @ '':'' @ image_tag img) @ ''?'')
                 [''Yes'', ''No''] in
           if answer = Some ''Yes'' then ask # snd (removeImage exec (image_id img)) @ [Refresh]
           else [ask]))"

definition cmd_inspectImage ::
  "shell \<Rightarrow> (string \<Rightarrow> string + 'j) \<Rightarrow> ('j \<Rightarrow> bool) \<Rightarrow> ('j \<Rightarrow> string) \<Rightarrow> Image \<Rightarrow> event list"
where
  "cmd_inspectImage exec parse truthyJson stringify img =
     (case inspectImageJson exec parse (image_reference img) of
        (None, evs) \<Rightarrow> evs
      | (Some inspection, evs) \<Rightarrow>
          if truthyJson inspection then evs @ [OpenTextDocument (stringify inspection)] else evs)"

definition noOptions :: "'n RunOptions" where
  "noOptions =
     \<lparr>opt_name = None, opt_ports = None, opt_referencePorts = None, opt_volumes = None,
      opt_env = None, opt_detach = None, opt_interactive = None, opt_tty = None,
      opt_remove = None, opt_command = None, opt_workdir = None, opt_user = None,
      opt_entrypoint = None, opt_cpus = None, opt_memory = None, opt_network = None,
      opt_labels = None, opt_dns = None\<rparr>"

definition cmd_runFromImage ::
  "'n numbers \<Rightarrow> Image option \<Rightarrow> string option \<Rightarrow> string option \<Rightarrow> string option
     \<Rightarrow> event list"
where
  "cmd_runFromImage js item name ports selection =
     (case item of
        None \<Rightarrow> []
      | Some img \<Rightarrow>
          ShowInputBox ''Container name (optional)''
          # (case name of
               None \<Rightarrow> []
             | Some name \<Rightarrow>
                 ShowInputBox
                   ''Ports to expose (for reference, comma-separated, e.g., 80,3000,6379)''
                 # (case ports of
                      None \<Rightarrow> []
                    | Some ports \<Rightarrow>
                        (let options = noOptions
                               \<lparr>opt_detach := Some True, opt_interactive := Some True,
                                opt_tty := Some True\<rparr>;
                             options = (if name \<noteq> [] then options\<lparr>opt_name := Some name\<rparr>
                                        else options);
                             options =
                               (if ports \<noteq> [] then
                                  options\<lparr>opt_referencePorts :=
                                    Some (filter (\<lambda>p. p \<noteq> [])
                                            (map trim (split_on (CHR '','') ports)))\<rparr>
                                else options)
                         in snd (runContainer js (image_repository img @ '':'' @ image_tag img)
                                   (Some options) selection)
                              @ [Refresh, UpdateStatusBar]))))"

definition cmd_pullImage :: "string option \<Rightarrow> event list" where
  "cmd_pullImage img =
     ShowInputBox ''Enter image name to pull (e.g., nginx:latest)''
     # (if truthy img then snd (pullImage (template img)) @ [Refresh] else [])"

definition cmd_buildImage ::
  "string option \<Rightarrow> string option \<Rightarrow> string option \<Rightarrow> string option \<Rightarrow> event list"
where
  "cmd_buildImage workspaceFolder contextPath tag dockerfile =
     (case workspaceFolder of
        None \<Rightarrow> [ShowErrorMessage ''No workspace folder open'']
      | Some folder \<Rightarrow>
          ShowInputBox ''Build context path''
          # (case contextPath of
               None \<Rightarrow> []
             | Some contextPath \<Rightarrow>
                 ShowInputBox ''Image tag (optional)''
                 # (case tag of
                      None \<Rightarrow> []
                    | Some tag \<Rightarrow>
                        ShowInputBox ''Dockerfile path (optional)''
                        # (case dockerfile of
                             None \<Rightarrow> []
                           | Some dockerfile \<Rightarrow>
                               if contextPath \<noteq> [] then
                                 snd (buildImage contextPath (Some tag) (Some dockerfile))
                                   @ [Refresh]
                               else []))))"

text \<open>
  The message handler of the container details panel, by the \<^verbatim>\<open>command\<close> of the
  message, for the container the panel shows.
\<close>

definition panel_onMessage :: "shell \<Rightarrow> Container \<Rightarrow> string \<Rightarrow> string option \<Rightarrow> event list" where
  "panel_onMessage exec container command answer =
     (if command = ''startContainer'' then
        snd (startContainer exec (container_id container)) @ [RefreshContainer]
      else if command = ''stopContainer'' then
        snd (stopContainer exec (container_id container)) @ [RefreshContainer]
      else if command = ''removeContainer'' then
        (let ask = ShowWarningMessage
               (''Are you sure you want to remove container '' @ quoted (displayName container)
                  @ ''?'')
               [''Yes'', ''No''] in
         if answer = Some ''Yes'' then
           ask # snd (removeContainer exec (container_id container) False) @ [DisposePanel]
         else [ask])
      else if command = ''viewLogs'' then
        streamContainerLogs (container_id container) (Some (container_name container))
      else if command = ''refresh'' then [RefreshContainer]
      else [])"

text \<open>
  The run form. \<open>FormData\<close> is the \<^verbatim>\<open>data\<close> of the message its script posts: the text
  of each input and the state of each check box; the form has no input for
  \<^verbatim>\<open>network\<close>, which may still be in the message. \<open>formLines\<close> is
  \<^verbatim>\<open>text ? text.split('\n').filter(x => x.trim()) : []\<close>.
\<close>

record FormData =
  form_image :: string
  form_name :: string
  form_command :: string
  form_detach :: bool
  form_interactive :: bool
  form_tty :: bool
  form_remove :: bool
  form_ports :: string
  form_dns :: string
  form_volumes :: string
  form_workdir :: string
  form_user :: string
  form_entrypoint :: string
  form_cpus :: string
  form_memory :: string
  form_network :: "string option"
  form_env :: string
  form_labels :: string

definition formLines :: "string \<Rightarrow> string list" where
  "formLines text =
     (if text \<noteq> [] then filter (\<lambda>x. trim x \<noteq> []) (split_on (CHR 0x0A) text) else [])"

definition orUndefined :: "string \<Rightarrow> string option" where
  "orUndefined s = (if s \<noteq> [] then Some s else None)"

definition formOptions :: "'n numbers \<Rightarrow> FormData \<Rightarrow> 'n RunOptions" where
  "formOptions js data =
     \<lparr>opt_name = orUndefined (form_name data),
      opt_ports = None,
      opt_referencePorts = Some (formLines (form_ports data)),
      opt_volumes = Some (formLines (form_volumes data)),
      opt_env = Some (formLines (form_env data)),
      opt_detach = Some (form_detach data),
      opt_interactive = Some (form_interactive data),
      opt_tty = Some (form_tty data),
      opt_remove = Some (form_remove data),
      opt_command = orUndefined (form_command data),
      opt_workdir = orUndefined (form_workdir data),
      opt_user = orUndefined (form_user data),
      opt_entrypoint = orUndefined (form_entrypoint data),
      opt_cpus = (if form_cpus data \<noteq> [] then Some (number_parseFloat js (form_cpus data))
                  else None),
      opt_memory = orUndefined (form_memory data),
      opt_network = (if truthy (form_network data) then form_network data else None),
      opt_labels = Some (formLines (form_labels data)),
      opt_dns = Some (formLines (form_dns data))\<rparr>"

text \<open>
  \<^verbatim>\<open>_handleRunContainer\<close>, and the message handler of the form by the \<^verbatim>\<open>command\<close> of the
  message.
\<close>

definition form_handleRunContainer :: "'n numbers \<Rightarrow> FormData \<Rightarrow> string option \<Rightarrow> event list" where
  "form_handleRunContainer js data selection =
     (case runContainerAdvanced js (form_image data) (Some (formOptions js data)) selection of
        (success, evs) \<Rightarrow>
          if success then
            evs @ [ShowInformationMessage ''Container started successfully'' [], DisposePanel]
          else evs)"

definition form_onMessage ::
  "'n numbers \<Rightarrow> FormData \<Rightarrow> string \<Rightarrow> string option \<Rightarrow> event list"
where
  "form_onMessage js data command selection =
     (if command = ''runContainer'' then form_handleRunContainer js data selection
      else if command = ''closePanel'' then [DisposePanel]
      else [])"

section \<open>Reading a list of calls\<close>

text \<open>
  A call issues a command of the container tool when it runs one or sends one to a
  terminal. A confirmation is a warning prompt with the two buttons Yes and No. A list
  of calls is \<open>confirmedFirst\<close> when no command is issued before the first confirmation,
  so a list without a confirmation issues none.
\<close>

fun isCommand :: "event \<Rightarrow> bool" where
  "isCommand (ExecAsync c) = True"
| "isCommand (TerminalSendText n c) = True"
| "isCommand e = False"

fun isConfirmation :: "event \<Rightarrow> bool" where
  "isConfirmation (ShowWarningMessage m buttons) = (buttons = [''Yes'', ''No''])"
| "isConfirmation e = False"

definition commands :: "event list \<Rightarrow> event list" where
  "commands evs = filter isCommand evs"

definition confirmedFirst :: "event list \<Rightarrow> bool" where
  "confirmedFirst evs = (commands (takeWhile (\<lambda>e. \<not> isConfirmation e) evs) = [])"

section \<open>The specification's wording\<close>

text \<open>
  The specification splits an image reference at its last colon, after the digest is
  stripped: the repository is what stands before that colon and the tag what stands
  after it, \<^verbatim>\<open>latest\<close> when there is no colon. \<open>spec_splitReference\<close> follows that
  wording, to be compared with \<^const>\<open>toImage\<close>.
\<close>

definition spec_splitReference :: "string \<Rightarrow> string \<times> string" where
  "spec_splitReference reference =
     (let named = takeWhile (\<lambda>c. c \<noteq> CHR ''@'') reference in
      if CHR '':'' \<in> set named then
        (rev (tl (dropWhile (\<lambda>c. c \<noteq> CHR '':'') (rev named))),
         rev (takeWhile (\<lambda>c. c \<noteq> CHR '':'') (rev named)))
      else (named, ''latest''))"

text \<open>
  The specification's order of the flags of an advanced run, group by group: runtime
  flags, identity flags, resource flags, then the repeated flags, each once per item in
  the order of the items, and last the command override.
\<close>

definition spec_runtimeFlags :: "'n RunOptions option \<Rightarrow> string" where
  "spec_runtimeFlags options =
     (if isSet (field options opt_detach) then '' --detach'' else [])
     @ (if isSet (field options opt_interactive) then '' --interactive'' else [])
     @ (if isSet (field options opt_tty) then '' --tty'' else [])
     @ (if isSet (field options opt_remove) then '' --rm'' else [])"

definition spec_identityFlags :: "'n RunOptions option \<Rightarrow> string" where
  "spec_identityFlags options =
     (if truthy (field options opt_name) then '' --name '' @ template (field options opt_name)
      else [])
     @ (if truthy (field options opt_workdir)
        then '' --workdir '' @ quoted (template (field options opt_workdir)) else [])
     @ (if truthy (field options opt_user) then '' --user '' @ template (field options opt_user)
        else [])
     @ (if truthy (field options opt_entrypoint)
        then '' --entrypoint '' @ quoted (template (field options opt_entrypoint)) else [])"

definition spec_resourceFlags :: "'n numbers \<Rightarrow> 'n RunOptions option \<Rightarrow> string" where
  "spec_resourceFlags js options =
     (case field options opt_cpus of
        None \<Rightarrow> []
      | Some n \<Rightarrow> if number_truthy js n then '' --cpus '' @ number_text js n else [])
     @ (if truthy (field options opt_memory)
        then '' --memory '' @ template (field options opt_memory) else [])"

definition spec_repeated :: "string \<Rightarrow> string list option \<Rightarrow> string" where
  "spec_repeated flag items =
     concat (map (\<lambda>item. flag @ item) (case items of None \<Rightarrow> [] | Some xs \<Rightarrow> xs))"

definition spec_multiFlags :: "'n RunOptions option \<Rightarrow> string" where
  "spec_multiFlags options =
     spec_repeated '' --dns '' (field options opt_dns)
     @ spec_repeated '' -v '' (field options opt_volumes)
     @ spec_repeated '' -e '' (field options opt_env)
     @ spec_repeated '' -l '' (field options opt_labels)"

definition spec_commandOverride :: "'n RunOptions option \<Rightarrow> string" where
  "spec_commandOverride options =
     (if truthy (field options opt_command) then '' '' @ template (field options opt_command)
      else [])"

section \<open>Example data\<close>

text \<open>
  One entry of the JSON listing and the record it becomes, a second entry that the table
  does not list, a table listing with one row, and a table listing in which two rows
  carry the same id.
\<close>

definition example_entry :: RawContainer where
  "example_entry =
     \<lparr>raw_configuration =
        Some \<lparr>cfg_id = Some ''abc'', cfg_hostname = Some ''web1'',
              cfg_image = Some \<lparr>ref_reference = Some ''nginx:latest''\<rparr>\<rparr>,
      raw_status = Some ''running''\<rparr>"

definition other_entry :: RawContainer where
  "other_entry =
     \<lparr>raw_configuration =
        Some \<lparr>cfg_id = Some ''def'', cfg_hostname = None,
              cfg_image = Some \<lparr>ref_reference = Some ''redis:7''\<rparr>\<rparr>,
      raw_status = Some ''stopped''\<rparr>"

definition example_container :: Container where
  "example_container =
     \<lparr>container_id = ''abc'', container_name = ''web1'', container_image = ''nginx:latest'',
      container_status = ''running'', container_ports = Some [],
      container_created = ''unknown'', container_ipAddress = Some ''10.0.0.5'',
      container_os = Some ''linux'', container_arch = Some ''arm64''\<rparr>"

definition example_image :: Image where
  "example_image =
     \<lparr>image_id = ''sha256:0a1b'', image_repository = ''nginx'', image_tag = ''latest'',
      image_size = ''2 KB'', image_created = ''unknown'', image_reference = ''nginx:latest''\<rparr>"

definition example_table :: string where
  "example_table =
     ''ID  IMAGE  OS  ARCH  STATE  ADDR'' @ [CHR 0x0A]
     @ ''abc  -  linux  arm64  -  10.0.0.5'' @ [CHR 0x0A]"

definition example_shell :: shell where
  "example_shell cmd =
     (if cmd = ''container list --format json'' then Inr ''[]'' else Inr example_table)"

definition example_parse :: "string \<Rightarrow> string + RawContainer list" where
  "example_parse text = Inr [example_entry, other_entry]"




text \<open>
  Numbers for the examples: a number is held as its decimal text, so \<^verbatim>\<open>parseFloat\<close> and
  printing keep the text, and the number is truthy unless the text is \<^verbatim>\<open>0\<close> or \<^verbatim>\<open>NaN\<close>.
\<close>

definition example_numbers :: "string numbers" where
  "example_numbers =
     \<lparr>number_truthy = (\<lambda>n. n \<noteq> ''0'' \<and> n \<noteq> ''NaN''),
      number_text = (\<lambda>n. n),
      number_parseFloat = (\<lambda>s. s)\<rparr>"

definition example_form :: FormData where
  "example_form =
     \<lparr>form_image = ''nginx:latest'', form_name = ''web'', form_command = [],
      form_detach = True, form_interactive = False, form_tty = False, form_remove = True,
      form_ports = ''80'' @ [CHR 0x0A] @ ''443'', form_dns = ''1.1.1.1'',
      form_volumes = [], form_workdir = [], form_user = [], form_entrypoint = [],
      form_cpus = ''0.5'', form_memory = ''1g'', form_network = None,
      form_env = ''K=V'', form_labels = []\<rparr>"

section \<open>Properties of the text operations\<close>

lemma split_on_not_Nil: "split_on sep s \<noteq> []"
  by (induction s) (auto split: list.splits)

lemma split_on_no_sep: "sep \<notin> set s \<Longrightarrow> split_on sep s = [s]"
  by (induction s) auto

lemma split_on_append: "sep \<notin> set h \<Longrightarrow> split_on sep (h @ sep # r) = h # split_on sep r"
  by (induction h) auto

lemma or_default_not_Nil: "d \<noteq> [] \<Longrightarrow> or_default v d \<noteq> []"
  by (cases v) auto



lemma foldl_append_each:
  "foldl (\<lambda>cmd item. cmd @ flag @ item) cmd xs = cmd @ concat (map (\<lambda>item. flag @ item) xs)"
  by (induction xs arbitrary: cmd) auto

section \<open>Image references\<close>

lemma split_on_first:
  "(case split_on sep s of [] \<Rightarrow> [] | piece # rest \<Rightarrow> piece) = takeWhile (\<lambda>c. c \<noteq> sep) s"
  by (induction s) (auto split: list.splits)

lemma spec_split_one_colon:
  assumes "takeWhile (\<lambda>c. c \<noteq> CHR ''@'') reference = a @ CHR '':'' # b"
    and "CHR '':'' \<notin> set b"
  shows "spec_splitReference reference = (a, b)"
proof -
  have "dropWhile (\<lambda>c. c \<noteq> CHR '':'') (rev b @ CHR '':'' # rev a) = CHR '':'' # rev a"
    using assms(2) by (auto simp: dropWhile_append3)
  moreover have "takeWhile (\<lambda>c. c \<noteq> CHR '':'') (rev b @ CHR '':'' # rev a) = rev b"
    using assms(2) by (subst takeWhile_append2) auto
  ultimately show ?thesis
    using assms(1) by (simp add: spec_splitReference_def Let_def)
qed

text \<open>
  Where the part of a reference before its digest has no colon, or one colon with text
  on both sides of it, the repository and the tag of the record \<^verbatim>\<open>listImages\<close> builds
  are those of the specification's wording.
\<close>

lemma toImage_at_most_one_colon:
  assumes "raw_reference raw = Some reference"
  shows "(CHR '':'' \<notin> set (takeWhile (\<lambda>c. c \<noteq> CHR ''@'') reference)
            \<and> takeWhile (\<lambda>c. c \<noteq> CHR ''@'') reference \<noteq> []
          \<longrightarrow> (image_repository (toImage raw), image_tag (toImage raw))
                = spec_splitReference reference)
       \<and> (takeWhile (\<lambda>c. c \<noteq> CHR ''@'') reference = a @ CHR '':'' # b
            \<and> CHR '':'' \<notin> set a \<and> CHR '':'' \<notin> set b \<and> a \<noteq> [] \<and> b \<noteq> []
          \<longrightarrow> (image_repository (toImage raw), image_tag (toImage raw))
                = spec_splitReference reference)"
proof (intro conjI impI)
  let ?named = "takeWhile (\<lambda>c. c \<noteq> CHR ''@'') reference"
  assume h: "CHR '':'' \<notin> set ?named \<and> ?named \<noteq> []"
  then have ref: "reference \<noteq> []" by auto
  show "(image_repository (toImage raw), image_tag (toImage raw)) = spec_splitReference reference"
    using h assms ref
    by (simp add: toImage_def Let_def split_on_first split_on_no_sep spec_splitReference_def)
next
  let ?named = "takeWhile (\<lambda>c. c \<noteq> CHR ''@'') reference"
  assume h: "?named = a @ CHR '':'' # b \<and> CHR '':'' \<notin> set a \<and> CHR '':'' \<notin> set b
    \<and> a \<noteq> [] \<and> b \<noteq> []"
  then have ref: "reference \<noteq> []" by auto
  have pieces: "split_on (CHR '':'') ?named = [a, b]"
    using h by (simp add: split_on_append split_on_no_sep)
  have spec: "spec_splitReference reference = (a, b)"
    using h by (intro spec_split_one_colon) simp_all
  have named: "(case split_on (CHR ''@'') reference of [] \<Rightarrow> [] | piece # rest \<Rightarrow> piece)
      = a @ CHR '':'' # b"
    using h by (simp add: split_on_first)
  show "(image_repository (toImage raw), image_tag (toImage raw)) = spec_splitReference reference"
    using h assms ref pieces by (simp add: toImage_def Let_def named spec)
qed

text \<open>The reference of the specification's own example is of that kind.\<close>

lemma toImage_docker_hub:
  "image_repository
     (toImage \<lparr>raw_reference = Some ''docker.io/library/nginx:latest'', raw_descriptor = d\<rparr>)
     = ''docker.io/library/nginx''
   \<and> image_tag
       (toImage \<lparr>raw_reference = Some ''docker.io/library/nginx:latest'', raw_descriptor = d\<rparr>)
     = ''latest''
   \<and> spec_splitReference ''docker.io/library/nginx:latest''
     = (''docker.io/library/nginx'', ''latest'')"
  by (simp add: toImage_def spec_splitReference_def)

text \<open>
  C1. The claim: a reference is split, after its digest is stripped, at the last colon,
  the repository before it and the tag after it. For the reference
  \<^verbatim>\<open>localhost:5000/nginx:1.25\<close> of a registry with a port that gives the repository
  \<^verbatim>\<open>localhost:5000/nginx\<close> and the tag \<^verbatim>\<open>1.25\<close>. The record \<^verbatim>\<open>listImages\<close> builds has
  the repository \<^verbatim>\<open>localhost\<close> and the tag \<^verbatim>\<open>5000/nginx\<close>: the destructuring keeps the
  first two pieces of the split at every colon.
\<close>

theorem toImage_registry_port:
  "toImage \<lparr>raw_reference = Some ''localhost:5000/nginx:1.25'', raw_descriptor = None\<rparr> =
     \<lparr>image_id = [], image_repository = ''localhost'', image_tag = ''5000/nginx'',
      image_size = ''unknown'', image_created = ''unknown'',
      image_reference = ''localhost:5000/nginx:1.25''\<rparr>
   \<and> spec_splitReference ''localhost:5000/nginx:1.25'' = (''localhost:5000/nginx'', ''1.25'')"
  by (simp add: toImage_def spec_splitReference_def)

section \<open>Reconciling the two listings\<close>


lemma parseTableLine_short:
  "length (split_ws (trim l)) < 6 \<Longrightarrow> entry_id (parseTableLine l) = []"
  by (simp add: parseTableLine_def Let_def)





lemma scenario_line:
  "parseTableLine ''abc  -  linux  arm64  -  10.0.0.5'' =
     \<lparr>entry_id = ''abc'', entry_ipAddress = Some ''10.0.0.5'', entry_os = Some ''linux'',
      entry_arch = Some ''arm64''\<rparr>"
  by code_simp

lemma empty_line:
  "parseTableLine [] =
     \<lparr>entry_id = [], entry_ipAddress = None, entry_os = None, entry_arch = None\<rparr>"
  by code_simp

lemma scenario_table:
  assumes "CHR 0x0A \<notin> set header" and "trailer = [] \<or> trailer = [CHR 0x0A]"
  shows "parseContainerTable
           (header @ [CHR 0x0A] @ ''abc  -  linux  arm64  -  10.0.0.5'' @ trailer) =
         [\<lparr>entry_id = ''abc'', entry_ipAddress = Some ''10.0.0.5'', entry_os = Some ''linux'',
           entry_arch = Some ''arm64''\<rparr>]"
proof -
  have "split_on (CHR 0x0A) (''abc  -  linux  arm64  -  10.0.0.5'' @ trailer) =
          (if trailer = [] then [''abc  -  linux  arm64  -  10.0.0.5'']
           else [''abc  -  linux  arm64  -  10.0.0.5'', []])"
    using assms(2) by auto
  then show ?thesis
    using assms(1)
    by (auto simp: parseContainerTable_def split_on_append scenario_line empty_line)
qed

lemma example_table_parsed:
  "parseContainerTable example_table =
     [\<lparr>entry_id = ''abc'', entry_ipAddress = Some ''10.0.0.5'', entry_os = Some ''linux'',
       entry_arch = Some ''arm64''\<rparr>]"
  using scenario_table [of "''ID  IMAGE  OS  ARCH  STATE  ADDR''" "[CHR 0x0A]"]
  by (simp add: example_table_def)

lemma example_listing:
  "listContainers example_shell example_parse False =
     ([example_container,
       \<lparr>container_id = ''def'', container_name = ''def'', container_image = ''redis:7'',
        container_status = ''stopped'', container_ports = Some [],
        container_created = ''unknown'', container_ipAddress = None,
        container_os = None, container_arch = None\<rparr>],
      [ExecAsync ''container list --format json'', ExecAsync ''container ls''])"
  by (simp add: listContainers_def listContainers_try_def listJsonCmd_def listTableCmd_def
      example_shell_def example_parse_def example_table_parsed toContainer_def Let_def
      example_entry_def other_entry_def example_container_def)



text \<open>
  C3. The JSON listing parses to one entry with configuration id \<^verbatim>\<open>abc\<close>, hostname
  \<^verbatim>\<open>web1\<close>, image reference \<^verbatim>\<open>nginx:latest\<close> and status \<^verbatim>\<open>running\<close>; the table
  listing is a header line, the line \<^verbatim>\<open>abc  -  linux  arm64  -  10.0.0.5\<close> and at most a
  final line break. Then \<^verbatim>\<open>listContainers\<close> returns exactly one record, with id
  \<^verbatim>\<open>abc\<close>, name \<^verbatim>\<open>web1\<close>, image \<^verbatim>\<open>nginx:latest\<close>, status \<^verbatim>\<open>running\<close>, ipAddress
  \<^verbatim>\<open>10.0.0.5\<close>, os \<^verbatim>\<open>linux\<close> and arch \<^verbatim>\<open>arm64\<close>.
\<close>

theorem listContainers_scenario:
  assumes "exec (listJsonCmd all) = Inr jsonOutput"
    and "parse jsonOutput =
           Inr [\<lparr>raw_configuration =
                   Some \<lparr>cfg_id = Some ''abc'', cfg_hostname = Some ''web1'',
                         cfg_image = Some \<lparr>ref_reference = Some ''nginx:latest''\<rparr>\<rparr>,
                 raw_status = Some ''running''\<rparr>]"
    and "exec (listTableCmd all) =
           Inr (header @ [CHR 0x0A] @ ''abc  -  linux  arm64  -  10.0.0.5'' @ trailer)"
    and "CHR 0x0A \<notin> set header"
    and "trailer = [] \<or> trailer = [CHR 0x0A]"
  shows "fst (listContainers exec parse all) =
           [\<lparr>container_id = ''abc'', container_name = ''web1'', container_image = ''nginx:latest'',
             container_status = ''running'', container_ports = Some [],
             container_created = ''unknown'', container_ipAddress = Some ''10.0.0.5'',
             container_os = Some ''linux'', container_arch = Some ''arm64''\<rparr>]"
  using assms(1,2,3) scenario_table [OF assms(4,5)]
  by (simp add: listContainers_def listContainers_try_def toContainer_def)

theorem listContainers_scenario_witness:
  \<open>fst (listContainers
          (\<lambda>cmd. if cmd = ''container list --format json''
                 then Inr ''[{"configuration":{"id":"abc","hostname":"web1","image":{"reference":"nginx:latest"}},"status":"running"}]''
                 else Inr (''ID  IMAGE  OS  ARCH  STATE  ADDR'' @ [CHR 0x0A]
                             @ ''abc  -  linux  arm64  -  10.0.0.5'' @ [CHR 0x0A]))
          (\<lambda>text. Inr [\<lparr>raw_configuration =
                           Some \<lparr>cfg_id = Some ''abc'', cfg_hostname = Some ''web1'',
                                 cfg_image = Some \<lparr>ref_reference = Some ''nginx:latest''\<rparr>\<rparr>,
                         raw_status = Some ''running''\<rparr>])
          False) =
     [\<lparr>container_id = ''abc'', container_name = ''web1'', container_image = ''nginx:latest'',
       container_status = ''running'', container_ports = Some [],
       container_created = ''unknown'', container_ipAddress = Some ''10.0.0.5'',
       container_os = Some ''linux'', container_arch = Some ''arm64''\<rparr>]\<close>
  by (rule listContainers_scenario
        [where header = "''ID  IMAGE  OS  ARCH  STATE  ADDR''" and trailer = "[CHR 0x0A]"])
     (simp_all add: listJsonCmd_def listTableCmd_def)

text \<open>
  C4. Take two table listings whose lines differ only in that the first has one more
  line, after the header, and that line gives fewer than six tokens (the headers may
  differ too). Both parse to the same table entries, so every JSON entry is reconciled
  to the same record against either: the line adds no entry and no network or platform
  data.
\<close>

theorem short_line_contributes_nothing:
  assumes "split_on (CHR 0x0A) output = header # before @ line # after"
    and "split_on (CHR 0x0A) output' = header' # before @ after"
    and "length (split_ws (trim line)) < 6"
  shows "parseContainerTable output = parseContainerTable output'
       \<and> toContainer (parseContainerTable output) rawContainer
           = toContainer (parseContainerTable output') rawContainer"
  using assms by (simp add: parseContainerTable_def Let_def parseTableLine_short)

theorem short_line_contributes_nothing_witness:
  "length (split_ws (trim ''No  such  row'')) < 6
   \<and> parseContainerTable
        (''ID  IMAGE  OS  ARCH  STATE  ADDR'' @ [CHR 0x0A] @ ''No  such  row'' @ [CHR 0x0A]
           @ ''abc  -  linux  arm64  -  10.0.0.5'')
     = parseContainerTable
        (''ID  IMAGE  OS  ARCH  STATE  ADDR'' @ [CHR 0x0A] @ ''abc  -  linux  arm64  -  10.0.0.5'')"
proof -
  have short: "length (split_ws (trim ''No  such  row'')) < 6"
    by code_simp
  have with_line:
    "split_on (CHR 0x0A)
       (''ID  IMAGE  OS  ARCH  STATE  ADDR'' @ [CHR 0x0A] @ ''No  such  row'' @ [CHR 0x0A]
          @ ''abc  -  linux  arm64  -  10.0.0.5'')
     = ''ID  IMAGE  OS  ARCH  STATE  ADDR'' # [] @ ''No  such  row''
         # [''abc  -  linux  arm64  -  10.0.0.5'']"
    by simp
  have without_line:
    "split_on (CHR 0x0A)
       (''ID  IMAGE  OS  ARCH  STATE  ADDR'' @ [CHR 0x0A] @ ''abc  -  linux  arm64  -  10.0.0.5'')
     = ''ID  IMAGE  OS  ARCH  STATE  ADDR'' # [] @ [''abc  -  linux  arm64  -  10.0.0.5'']"
    by simp
  show ?thesis
    using short short_line_contributes_nothing [OF with_line without_line short] by simp
qed




section \<open>Failures of the listings\<close>

text \<open>
  C6. When the JSON command of the container listing fails, when its output does not
  parse, or when the table command fails, \<^verbatim>\<open>listContainers\<close> returns the empty list and
  its last call shows the error; whatever is thrown in its \<^verbatim>\<open>try\<close> ends so. The same
  holds for \<^verbatim>\<open>listImages\<close> when its command fails or the output does not parse. Both
  return to their caller in every case.
\<close>

theorem listing_failures:
  "(exec (listJsonCmd all) = Inl err \<longrightarrow>
      listContainers exec parse all =
        ([], [ExecAsync (listJsonCmd all),
              ShowErrorMessage (''Failed to list containers: '' @ err)]))
   \<and> (exec (listJsonCmd all) = Inr out \<and> parse out = Inl err \<longrightarrow>
      listContainers exec parse all =
        ([], [ExecAsync (listJsonCmd all),
              ShowErrorMessage (''Failed to list containers: '' @ err)]))
   \<and> (exec (listJsonCmd all) = Inr out \<and> parse out = Inr raws
        \<and> exec (listTableCmd all) = Inl err \<longrightarrow>
      listContainers exec parse all =
        ([], [ExecAsync (listJsonCmd all), ExecAsync (listTableCmd all),
              ShowErrorMessage (''Failed to list containers: '' @ err)]))
   \<and> (snd (listContainers_try exec parse all) = Inl err \<longrightarrow>
      fst (listContainers exec parse all) = []
      \<and> last (snd (listContainers exec parse all))
          = ShowErrorMessage (''Failed to list containers: '' @ err))
   \<and> (exec ''container image list --format json'' = Inl err \<longrightarrow>
      listImages exec parseImages =
        ([], [ExecAsync ''container image list --format json'',
              ShowErrorMessage (''Failed to list images: '' @ err)]))
   \<and> (exec ''container image list --format json'' = Inr out \<and> parseImages out = Inl err \<longrightarrow>
      listImages exec parseImages =
        ([], [ExecAsync ''container image list --format json'',
              ShowErrorMessage (''Failed to list images: '' @ err)]))
   \<and> (snd (listImages_try exec parseImages) = Inl err \<longrightarrow>
      fst (listImages exec parseImages) = []
      \<and> last (snd (listImages exec parseImages))
          = ShowErrorMessage (''Failed to list images: '' @ err))"
  by (auto simp: listContainers_def listContainers_try_def listImages_def listImages_try_def
      Let_def split: sum.splits prod.splits)

theorem listing_failures_witness:
  "listContainers (\<lambda>cmd. Inl ''command not found'') (\<lambda>text. Inr [example_entry]) True =
     ([], [ExecAsync ''container list --all --format json'',
           ShowErrorMessage ''Failed to list containers: command not found''])
   \<and> listContainers (\<lambda>cmd. Inr ''{'') (\<lambda>text. Inl ''SyntaxError'') False =
     ([], [ExecAsync ''container list --format json'',
           ShowErrorMessage ''Failed to list containers: SyntaxError''])
   \<and> listContainers
        (\<lambda>cmd. if cmd = ''container list --format json'' then Inr ''[]'' else Inl ''exit 1'')
        (\<lambda>text. Inr [example_entry]) False =
     ([], [ExecAsync ''container list --format json'', ExecAsync ''container ls'',
           ShowErrorMessage ''Failed to list containers: exit 1''])
   \<and> listImages (\<lambda>cmd. Inl ''command not found'') (\<lambda>text. Inr []) =
     ([], [ExecAsync ''container image list --format json'',
           ShowErrorMessage ''Failed to list images: command not found''])
   \<and> listImages (\<lambda>cmd. Inr ''{'') (\<lambda>text. Inl ''SyntaxError'') =
     ([], [ExecAsync ''container image list --format json'',
           ShowErrorMessage ''Failed to list images: SyntaxError''])"
  using
    listing_failures [where exec = "\<lambda>cmd. Inl ''command not found''" and all = True
      and err = "''command not found''" and parse = "\<lambda>text. Inr [example_entry]"
      and parseImages = "\<lambda>text. Inr []"]
    listing_failures [where exec = "\<lambda>cmd. Inr ''{''" and all = False and out = "''{''"
      and err = "''SyntaxError''" and parse = "\<lambda>text. Inl ''SyntaxError''"
      and parseImages = "\<lambda>text. Inl ''SyntaxError''"]
    listing_failures [where exec = "\<lambda>cmd. if cmd = ''container list --format json''
        then Inr ''[]'' else Inl ''exit 1''" and all = False and out = "''[]''"
      and err = "''exit 1''" and parse = "\<lambda>text. Inr [example_entry]"
      and raws = "[example_entry]"]
  by (simp add: listJsonCmd_def listTableCmd_def)

section \<open>Confirmation before a destructive action\<close>

lemma removeContainer_commands:
  "commands (snd (removeContainer exec cid force))
     = [ExecAsync (''container delete'' @ (if force then '' --force'' else []) @ '' '' @ cid)]"
  by (simp add: removeContainer_def commands_def Let_def split: sum.splits)

lemma removeImage_commands:
  "commands (snd (removeImage exec iid)) = [ExecAsync (''container image delete '' @ iid)]"
  by (simp add: removeImage_def commands_def Let_def split: sum.splits)

lemma startContainer_calls:
  "commands (snd (startContainer exec cid)) = [ExecAsync (''container start '' @ cid)]
   \<and> filter isConfirmation (snd (startContainer exec cid)) = []"
  by (simp add: startContainer_def commands_def Let_def split: sum.splits)

lemma stopContainer_calls:
  "commands (snd (stopContainer exec cid)) = [ExecAsync (''container stop '' @ cid)]
   \<and> filter isConfirmation (snd (stopContainer exec cid)) = []"
  by (simp add: stopContainer_def commands_def Let_def split: sum.splits)

lemma cmd_removeContainer_confirms:
  "confirmedFirst (cmd_removeContainer exec item answer)
   \<and> (answer \<noteq> Some ''Yes'' \<longrightarrow> commands (cmd_removeContainer exec item answer) = [])
   \<and> (answer = Some ''Yes'' \<longrightarrow>
        commands (cmd_removeContainer exec (Some container) answer)
          = [ExecAsync (''container delete '' @ container_id container)])"
  using removeContainer_commands [of exec _ False]
  by (auto simp: cmd_removeContainer_def confirmedFirst_def commands_def Let_def
      split: option.splits)

lemma cmd_forceRemoveContainer_confirms:
  "confirmedFirst (cmd_forceRemoveContainer exec item answer)
   \<and> (answer \<noteq> Some ''Yes'' \<longrightarrow> commands (cmd_forceRemoveContainer exec item answer) = [])
   \<and> (answer = Some ''Yes'' \<longrightarrow>
        commands (cmd_forceRemoveContainer exec (Some container) answer)
          = [ExecAsync (''container delete --force '' @ container_id container)])"
  using removeContainer_commands [of exec _ True]
  by (auto simp: cmd_forceRemoveContainer_def confirmedFirst_def commands_def Let_def
      split: option.splits)

lemma cmd_removeImage_confirms:
  "confirmedFirst (cmd_removeImage exec imageItem answer)
   \<and> (answer \<noteq> Some ''Yes'' \<longrightarrow> commands (cmd_removeImage exec imageItem answer) = [])
   \<and> (answer = Some ''Yes'' \<longrightarrow>
        commands (cmd_removeImage exec (Some img) answer)
          = [ExecAsync (''container image delete '' @ image_id img)])"
  using removeImage_commands [of exec]
  by (auto simp: cmd_removeImage_def confirmedFirst_def commands_def Let_def
      split: option.splits)

lemma pruneImages_confirms:
  "confirmedFirst (cmd_pruneImages exec answer)
   \<and> (answer \<noteq> Some ''Yes'' \<longrightarrow>
        commands (cmd_pruneImages exec answer) = [] \<and> fst (pruneImages exec answer) = False)
   \<and> (answer = Some ''Yes'' \<longrightarrow>
        commands (cmd_pruneImages exec answer) = [ExecAsync ''container image prune --force''])"
  by (auto simp: cmd_pruneImages_def pruneImages_def confirmedFirst_def commands_def Let_def
      split: sum.splits)

lemma panel_remove_confirms:
  "confirmedFirst (panel_onMessage exec container ''removeContainer'' answer)
   \<and> (answer \<noteq> Some ''Yes'' \<longrightarrow>
        commands (panel_onMessage exec container ''removeContainer'' answer) = [])
   \<and> (answer = Some ''Yes'' \<longrightarrow>
        commands (panel_onMessage exec container ''removeContainer'' answer)
          = [ExecAsync (''container delete '' @ container_id container)])"
  using removeContainer_commands [of exec _ False]
  by (auto simp: panel_onMessage_def confirmedFirst_def commands_def Let_def)

lemma start_stop_immediate:
  "filter isConfirmation (cmd_startContainer exec item) = []
   \<and> filter isConfirmation (cmd_stopContainer exec item) = []
   \<and> filter isConfirmation (panel_onMessage exec container ''startContainer'' answer) = []
   \<and> filter isConfirmation (panel_onMessage exec container ''stopContainer'' answer) = []
   \<and> commands (cmd_startContainer exec (Some container))
       = [ExecAsync (''container start '' @ container_id container)]
   \<and> commands (cmd_stopContainer exec (Some container))
       = [ExecAsync (''container stop '' @ container_id container)]"
  using startContainer_calls [of exec] stopContainer_calls [of exec]
  by (simp add: cmd_startContainer_def cmd_stopContainer_def panel_onMessage_def commands_def
      split: option.splits)

lemma portsNotice_no_prompt: "filter isConfirmation (portsNotice options selection) = []"
  by (simp add: portsNotice_def Let_def split: option.splits)

lemma run_immediate:
  "filter isConfirmation (cmd_runFromImage js imageItem name ports selection) = []
   \<and> filter isConfirmation (form_onMessage js formData ''runContainer'' selection) = []"
  by (simp add: cmd_runFromImage_def runContainer_def runContainerAdvanced_def
      form_onMessage_def form_handleRunContainer_def portsNotice_no_prompt Let_def
      split: option.splits)

lemma pull_immediate: "filter isConfirmation (cmd_pullImage pulled) = []"
  by (simp add: cmd_pullImage_def pullImage_def)

lemma build_immediate:
  "filter isConfirmation (cmd_buildImage workspaceFolder contextPath tag dockerfile) = []"
  by (simp add: cmd_buildImage_def buildImage_def Let_def split: option.splits)

lemma exec_immediate: "filter isConfirmation (cmd_execInContainer item command) = []"
  by (simp add: cmd_execInContainer_def execInContainer_def split: option.splits)

lemma inspect_immediate:
  "filter isConfirmation (cmd_inspectContainer exec parse truthyJson stringify container) = []
   \<and> filter isConfirmation (cmd_inspectImage exec parse truthyJson stringify img) = []"
  by (simp add: cmd_inspectContainer_def inspectContainer_def cmd_inspectImage_def
      inspectImageJson_def Let_def split: sum.splits)

lemma panel_start_stop_commands:
  "commands (panel_onMessage exec container ''startContainer'' answer)
     = [ExecAsync (''container start '' @ container_id container)]
   \<and> commands (panel_onMessage exec container ''stopContainer'' answer)
     = [ExecAsync (''container stop '' @ container_id container)]"
  using startContainer_calls [of exec] stopContainer_calls [of exec]
  by (simp add: panel_onMessage_def commands_def)

lemma if_append: "(if c then x @ y else x) = x @ (if c then y else [])"
  by simp

lemma cpus_append:
  "(case v of None \<Rightarrow> x | Some n \<Rightarrow> x @ g n) = x @ (case v of None \<Rightarrow> [] | Some n \<Rightarrow> g n)"
  by (cases v) simp_all

lemma appendEach_repeated: "appendEach flag items cmd = cmd @ spec_repeated flag items"
  by (cases items) (simp_all add: appendEach_def spec_repeated_def foldl_append_each)

lemma runCommandLine_closed:
  "runCommandLine js img options =
     ''container run'' @ spec_runtimeFlags options @ spec_identityFlags options
       @ spec_resourceFlags js options @ spec_multiFlags options @ '' '' @ img
       @ spec_commandOverride options"
  unfolding runCommandLine_def spec_runtimeFlags_def spec_identityFlags_def
    spec_resourceFlags_def spec_multiFlags_def spec_commandOverride_def quoted_def
  by (simp only: Let_def if_append cpus_append appendEach_repeated append_assoc)

lemma runCommandLine_ignores:
  "runCommandLine js img
     (Some (opts\<lparr>opt_ports := ports, opt_referencePorts := referencePorts,
                 opt_network := network\<rparr>))
   = runCommandLine js img (Some opts)"
  by (simp add: runCommandLine_closed spec_runtimeFlags_def spec_identityFlags_def
      spec_resourceFlags_def spec_multiFlags_def spec_commandOverride_def field_def)

lemma runCommandLine_ignores_reference_ports:
  "runCommandLine js img (Some (opts\<lparr>opt_referencePorts := referencePorts\<rparr>))
   = runCommandLine js img (Some opts)"
  by (simp add: runCommandLine_closed spec_runtimeFlags_def spec_identityFlags_def
      spec_resourceFlags_def spec_multiFlags_def spec_commandOverride_def field_def)

lemma runFromImage_line:
  "runCommandLine js img
     (Some ((if ports \<noteq> [] then (\<lambda>opts. opts\<lparr>opt_referencePorts := Some referenced\<rparr>)
             else (\<lambda>opts. opts))
            ((if name \<noteq> [] then (\<lambda>opts. opts\<lparr>opt_name := Some name\<rparr>) else (\<lambda>opts. opts))
             (noOptions\<lparr>opt_detach := Some True, opt_interactive := Some True,
                        opt_tty := Some True\<rparr>))))
   = ''container run --detach --interactive --tty''
       @ (if name \<noteq> [] then '' --name '' @ name else []) @ '' '' @ img"
  by (simp add: runCommandLine_closed spec_runtimeFlags_def spec_identityFlags_def
      spec_resourceFlags_def spec_multiFlags_def spec_commandOverride_def spec_repeated_def
      field_def isSet_def truthy_def noOptions_def)

lemma run_commands:
  "take 1 (commands (cmd_runFromImage js (Some img) (Some name) (Some ports) selection))
     = [TerminalSendText ''Container Run''
          (''container run --detach --interactive --tty''
             @ (if name \<noteq> [] then '' --name '' @ name else [])
             @ '' '' @ image_repository img @ '':'' @ image_tag img)]
   \<and> take 1 (commands (form_onMessage js formData ''runContainer'' selection))
     = [TerminalSendText ''Container Run''
          (runCommandLine js (form_image formData) (Some (formOptions js formData)))]"
proof -
  have "take 1 (commands (cmd_runFromImage js (Some img) (Some name) (Some ports) selection))
     = [TerminalSendText ''Container Run''
          (runCommandLine js (image_repository img @ '':'' @ image_tag img)
             (Some ((if ports \<noteq> []
                     then (\<lambda>opts. opts\<lparr>opt_referencePorts :=
                             Some (filter (\<lambda>p. p \<noteq> []) (map trim (split_on (CHR '','') ports)))\<rparr>)
                     else (\<lambda>opts. opts))
                    ((if name \<noteq> [] then (\<lambda>opts. opts\<lparr>opt_name := Some name\<rparr>)
                      else (\<lambda>opts. opts))
                     (noOptions\<lparr>opt_detach := Some True, opt_interactive := Some True,
                                opt_tty := Some True\<rparr>)))))]"
    by (simp add: cmd_runFromImage_def runContainer_def runContainerAdvanced_def commands_def
        Let_def)
  then show ?thesis
    by (simp only: runFromImage_line)
       (simp add: form_onMessage_def form_handleRunContainer_def runContainerAdvanced_def
          commands_def)
qed

lemma other_commands:
  "commands (cmd_pullImage (Some (pullHead # pullTail)))
     = [TerminalSendText ''Image Pull'' (''container image pull '' @ pullHead # pullTail)]
   \<and> commands (cmd_buildImage (Some folder) (Some (pathHead # pathTail)) (Some tagText)
                 (Some fileText))
     = [TerminalSendText ''Container Build''
          (''container build '' @ (pathHead # pathTail)
             @ (if tagText \<noteq> [] then '' --tag '' @ tagText else [])
             @ (if fileText \<noteq> [] then '' --file '' @ fileText else []))]
   \<and> commands (cmd_execInContainer (Some container) (Some (commandHead # commandTail)))
     = [TerminalSendText (''Container Exec - '' @ container_id container)
          (''container exec --interactive --tty '' @ container_id container @ '' ''
             @ commandHead # commandTail)]
   \<and> commands (cmd_inspectContainer exec parse truthyJson stringify container)
     = [ExecAsync (''container inspect '' @ container_id container)]
   \<and> commands (cmd_inspectImage exec parse truthyJson stringify img)
     = [ExecAsync (''container image inspect '' @ image_reference img)]"
  by (simp add: cmd_pullImage_def pullImage_def cmd_buildImage_def buildImage_def
      cmd_execInContainer_def execInContainer_def cmd_inspectContainer_def inspectContainer_def
      cmd_inspectImage_def inspectImageJson_def commands_def truthy_def Let_def
      split: sum.splits)

text \<open>
  C7. The commands that remove a container, force its removal, remove an image or prune
  the images, and the removal from the details panel, issue no command of the container
  tool before their Yes/No prompt. When the answer is not Yes (No, or the prompt
  dismissed) they issue none at all and \<^verbatim>\<open>pruneImages\<close> returns false; when it is Yes
  they issue their one command, after the prompt and before the view is refreshed. The
  commands that start, stop, run (from an image and from the run form), pull, build,
  execute in and inspect show no such prompt, and each issues its command: start, stop
  and inspect at once, the others once their input boxes are answered, the run as the
  first command of its list.
\<close>

theorem destructive_actions_ask_first:
  "confirmedFirst (cmd_removeContainer exec item answer)
   \<and> confirmedFirst (cmd_forceRemoveContainer exec item answer)
   \<and> confirmedFirst (cmd_removeImage exec imageItem answer)
   \<and> confirmedFirst (cmd_pruneImages exec answer)
   \<and> confirmedFirst (panel_onMessage exec container ''removeContainer'' answer)
   \<and> (answer \<noteq> Some ''Yes'' \<longrightarrow>
        commands (cmd_removeContainer exec item answer) = []
        \<and> commands (cmd_forceRemoveContainer exec item answer) = []
        \<and> commands (cmd_removeImage exec imageItem answer) = []
        \<and> commands (cmd_pruneImages exec answer) = []
        \<and> fst (pruneImages exec answer) = False
        \<and> commands (panel_onMessage exec container ''removeContainer'' answer) = [])
   \<and> (answer = Some ''Yes'' \<longrightarrow>
        commands (cmd_removeContainer exec (Some container) answer)
          = [ExecAsync (''container delete '' @ container_id container)]
        \<and> commands (cmd_forceRemoveContainer exec (Some container) answer)
          = [ExecAsync (''container delete --force '' @ container_id container)]
        \<and> commands (cmd_removeImage exec (Some img) answer)
          = [ExecAsync (''container image delete '' @ image_id img)]
        \<and> commands (cmd_pruneImages exec answer) = [ExecAsync ''container image prune --force'']
        \<and> commands (panel_onMessage exec container ''removeContainer'' answer)
          = [ExecAsync (''container delete '' @ container_id container)])
   \<and> filter isConfirmation (cmd_startContainer exec item) = []
   \<and> filter isConfirmation (cmd_stopContainer exec item) = []
   \<and> filter isConfirmation (panel_onMessage exec container ''startContainer'' answer) = []
   \<and> filter isConfirmation (panel_onMessage exec container ''stopContainer'' answer) = []
   \<and> filter isConfirmation (cmd_runFromImage js imageItem name ports selection) = []
   \<and> filter isConfirmation (cmd_pullImage pulled) = []
   \<and> filter isConfirmation (cmd_buildImage workspaceFolder contextPath tag dockerfile) = []
   \<and> filter isConfirmation (cmd_execInContainer item command) = []
   \<and> filter isConfirmation (cmd_inspectContainer exec parse truthyJson stringify container) = []
   \<and> filter isConfirmation (cmd_inspectImage exec parse truthyJson stringify img) = []
   \<and> commands (cmd_startContainer exec (Some container))
       = [ExecAsync (''container start '' @ container_id container)]
   \<and> commands (cmd_stopContainer exec (Some container))
       = [ExecAsync (''container stop '' @ container_id container)]
   \<and> filter isConfirmation (form_onMessage js formData ''runContainer'' selection) = []
   \<and> commands (panel_onMessage exec container ''startContainer'' answer)
       = [ExecAsync (''container start '' @ container_id container)]
   \<and> commands (panel_onMessage exec container ''stopContainer'' answer)
       = [ExecAsync (''container stop '' @ container_id container)]
   \<and> take 1 (commands (cmd_runFromImage js (Some img) (Some nameText) (Some portsText) selection))
       = [TerminalSendText ''Container Run''
            (''container run --detach --interactive --tty''
               @ (if nameText \<noteq> [] then '' --name '' @ nameText else [])
               @ '' '' @ image_repository img @ '':'' @ image_tag img)]
   \<and> take 1 (commands (form_onMessage js formData ''runContainer'' selection))
       = [TerminalSendText ''Container Run''
            (runCommandLine js (form_image formData) (Some (formOptions js formData)))]
   \<and> commands (cmd_pullImage (Some (pullHead # pullTail)))
       = [TerminalSendText ''Image Pull'' (''container image pull '' @ pullHead # pullTail)]
   \<and> commands (cmd_buildImage (Some folder) (Some (pathHead # pathTail)) (Some tagText)
                  (Some fileText))
       = [TerminalSendText ''Container Build''
            (''container build '' @ (pathHead # pathTail)
               @ (if tagText \<noteq> [] then '' --tag '' @ tagText else [])
               @ (if fileText \<noteq> [] then '' --file '' @ fileText else []))]
   \<and> commands (cmd_execInContainer (Some container) (Some (commandHead # commandTail)))
       = [TerminalSendText (''Container Exec - '' @ container_id container)
            (''container exec --interactive --tty '' @ container_id container @ '' ''
               @ commandHead # commandTail)]
   \<and> commands (cmd_inspectContainer exec parse truthyJson stringify container)
       = [ExecAsync (''container inspect '' @ container_id container)]
   \<and> commands (cmd_inspectImage exec parse truthyJson stringify img)
       = [ExecAsync (''container image inspect '' @ image_reference img)]"
  using cmd_removeContainer_confirms [of exec item answer container]
    cmd_forceRemoveContainer_confirms [of exec item answer container]
    cmd_removeImage_confirms [of exec imageItem answer img]
    pruneImages_confirms [of exec answer]
    panel_remove_confirms [of exec container answer]
    start_stop_immediate [of exec item container answer]
    run_immediate [where js = js and imageItem = imageItem and name = name and ports = ports
      and selection = selection and formData = formData]
    pull_immediate [of pulled]
    build_immediate [of workspaceFolder contextPath tag dockerfile]
    exec_immediate [of item command]
    inspect_immediate [of exec parse truthyJson stringify container img]
    panel_start_stop_commands [of exec container answer]
    run_commands [where js = js and img = img and name = nameText and ports = portsText
      and selection = selection and formData = formData]
    other_commands [where pullHead = pullHead and pullTail = pullTail and folder = folder
      and pathHead = pathHead and pathTail = pathTail and tagText = tagText
      and fileText = fileText and container = container and commandHead = commandHead
      and commandTail = commandTail and exec = exec and parse = parse
      and truthyJson = truthyJson and stringify = stringify and img = img]
  by blast

theorem destructive_actions_ask_first_witness:
  "commands (cmd_removeContainer (\<lambda>cmd. Inr []) (Some example_container) (Some ''No'')) = []
   \<and> commands (cmd_forceRemoveContainer (\<lambda>cmd. Inr []) (Some example_container) (Some ''No'')) = []
   \<and> commands (cmd_removeImage (\<lambda>cmd. Inr []) (Some example_image) (Some ''No'')) = []
   \<and> commands (cmd_pruneImages (\<lambda>cmd. Inr []) (Some ''No'')) = []
   \<and> fst (pruneImages (\<lambda>cmd. Inr []) (Some ''No'')) = False
   \<and> commands (panel_onMessage (\<lambda>cmd. Inr []) example_container ''removeContainer'' (Some ''No''))
       = []
   \<and> commands (cmd_removeContainer (\<lambda>cmd. Inr []) (Some example_container) (Some ''Yes''))
       = [ExecAsync ''container delete abc'']
   \<and> commands (cmd_forceRemoveContainer (\<lambda>cmd. Inr []) (Some example_container) (Some ''Yes''))
       = [ExecAsync ''container delete --force abc'']
   \<and> commands (cmd_removeImage (\<lambda>cmd. Inr []) (Some example_image) (Some ''Yes''))
       = [ExecAsync ''container image delete sha256:0a1b'']
   \<and> commands (cmd_pruneImages (\<lambda>cmd. Inr []) (Some ''Yes''))
       = [ExecAsync ''container image prune --force'']
   \<and> commands (panel_onMessage (\<lambda>cmd. Inr []) example_container ''removeContainer'' (Some ''Yes''))
       = [ExecAsync ''container delete abc'']"
proof -
  note declined =
    destructive_actions_ask_first
      [where exec = "\<lambda>cmd. Inr []" and item = "Some example_container"
         and imageItem = "Some example_image" and container = example_container
         and answer = "Some ''No''",
       THEN conjunct2, THEN conjunct2, THEN conjunct2, THEN conjunct2, THEN conjunct2,
       THEN conjunct1]
  note accepted =
    destructive_actions_ask_first
      [where exec = "\<lambda>cmd. Inr []" and container = example_container
         and img = example_image and answer = "Some ''Yes''",
       THEN conjunct2, THEN conjunct2, THEN conjunct2, THEN conjunct2, THEN conjunct2,
       THEN conjunct2, THEN conjunct1]
  have no: "Some ''No'' \<noteq> Some ''Yes''"
    by simp
  have ident: "container_id example_container = ''abc''"
    by (simp add: example_container_def)
  have digest: "image_id example_image = ''sha256:0a1b''"
    by (simp add: example_image_def)
  show ?thesis
    using declined [THEN mp, OF no] accepted [THEN mp, OF refl]
    by (simp add: ident digest)
qed

section \<open>The command line of an advanced run\<close>

lemma portsNotice_given:
  "portsNotice (Some (opts\<lparr>opt_referencePorts := Some (port # morePorts)\<rparr>)) selection
     = ShowInformationMessage
         (''Container started! Use '' @ [CHR 0x27] @ ''container ls'' @ [CHR 0x27]
            @ '' to get the IP address, then access ports ''
            @ join_with '', '' (port # morePorts) @ '' directly on that IP.'')
         [''Show Container List'']
       # (if selection = Some ''Show Container List''
          then [TerminalSendText ''Container List'' ''container ls''] else [])"
  by (simp add: portsNotice_def field_def Let_def)

lemma portsNotice_not_given:
  "portsNotice (Some (opts\<lparr>opt_referencePorts := Some []\<rparr>)) selection = []"
  "portsNotice (Some (opts\<lparr>opt_referencePorts := None\<rparr>)) selection = []"
  "portsNotice None selection = []"
  by (simp_all add: portsNotice_def field_def)

lemma portsNotice_unused:
  "portsNotice (Some (opts\<lparr>opt_ports := ports, opt_network := network\<rparr>)) selection
     = portsNotice (Some opts) selection"
  by (simp add: portsNotice_def field_def)

lemma runCommandLine_unused:
  "runCommandLine js img (Some (opts\<lparr>opt_ports := ports, opt_network := network\<rparr>))
     = runCommandLine js img (Some opts)"
  by (simp add: runCommandLine_closed spec_runtimeFlags_def spec_identityFlags_def
      spec_resourceFlags_def spec_multiFlags_def spec_commandOverride_def field_def)

lemma runCommandLine_no_options: "runCommandLine js img None = ''container run '' @ img"
  by (simp add: runCommandLine_closed spec_runtimeFlags_def spec_identityFlags_def
      spec_resourceFlags_def spec_multiFlags_def spec_commandOverride_def spec_repeated_def
      field_def isSet_def truthy_def)

lemma formOptions_ports:
  "formOptions js (formData\<lparr>form_ports := portsText\<rparr>)
     = (formOptions js formData)\<lparr>opt_referencePorts := Some (formLines portsText)\<rparr>"
  by (simp add: formOptions_def)

text \<open>
  C8. The text \<^verbatim>\<open>runContainerAdvanced\<close> sends to the terminal is \<^verbatim>\<open>container run\<close>, then
  the runtime flags (\<^verbatim>\<open>--detach\<close>, \<^verbatim>\<open>--interactive\<close>, \<^verbatim>\<open>--tty\<close>, \<^verbatim>\<open>--rm\<close>), the identity
  flags (\<^verbatim>\<open>--name\<close>, \<^verbatim>\<open>--workdir\<close>, \<^verbatim>\<open>--user\<close>, \<^verbatim>\<open>--entrypoint\<close>), the resource flags
  (\<^verbatim>\<open>--cpus\<close>, \<^verbatim>\<open>--memory\<close>), the repeated flags (\<^verbatim>\<open>--dns\<close>, \<^verbatim>\<open>-v\<close>, \<^verbatim>\<open>-e\<close>, \<^verbatim>\<open>-l\<close>) once
  per item in the order of the items, the image reference and the command override,
  in this order, for every set of options and every number of cpus. The text is the
  same whatever the options \<^verbatim>\<open>ports\<close>, \<^verbatim>\<open>referencePorts\<close> and \<^verbatim>\<open>network\<close> hold, so no flag
  is made from them; neither does the text the run form sends depend on the ports typed
  into it. When reference ports are given, the call after the run is the notice that
  names them, joined by a comma and a blank, and the only command that can follow is
  \<^verbatim>\<open>container ls\<close>, when the user picks the button of the notice; with no reference
  ports the run is the only call. The option \<^verbatim>\<open>ports\<close> and the option \<^verbatim>\<open>network\<close>
  change nothing at all.
\<close>

theorem runContainerAdvanced_flag_order:
  "runCommandLine js img options =
     ''container run'' @ spec_runtimeFlags options @ spec_identityFlags options
       @ spec_resourceFlags js options @ spec_multiFlags options @ '' '' @ img
       @ spec_commandOverride options
   \<and> runCommandLine js img
       (Some (opts\<lparr>opt_ports := ports, opt_referencePorts := referencePorts,
                   opt_network := network\<rparr>))
     = runCommandLine js img (Some opts)
   \<and> runCommandLine js (form_image formData)
       (Some (formOptions js (formData\<lparr>form_ports := portsText\<rparr>)))
     = runCommandLine js (form_image formData) (Some (formOptions js formData))
   \<and> snd (runContainerAdvanced js img
            (Some (opts\<lparr>opt_referencePorts := Some (port # morePorts)\<rparr>)) selection)
     = TerminalSendText ''Container Run'' (runCommandLine js img (Some opts))
       # ShowInformationMessage
           (''Container started! Use '' @ [CHR 0x27] @ ''container ls'' @ [CHR 0x27]
              @ '' to get the IP address, then access ports ''
              @ join_with '', '' (port # morePorts) @ '' directly on that IP.'')
           [''Show Container List'']
       # (if selection = Some ''Show Container List''
          then [TerminalSendText ''Container List'' ''container ls''] else [])
   \<and> snd (runContainerAdvanced js img (Some (opts\<lparr>opt_referencePorts := Some []\<rparr>)) selection)
     = [TerminalSendText ''Container Run'' (runCommandLine js img (Some opts))]
   \<and> snd (runContainerAdvanced js img (Some (opts\<lparr>opt_referencePorts := None\<rparr>)) selection)
     = [TerminalSendText ''Container Run'' (runCommandLine js img (Some opts))]
   \<and> snd (runContainerAdvanced js img None selection)
     = [TerminalSendText ''Container Run'' (''container run '' @ img)]
   \<and> runContainerAdvanced js img
       (Some (opts\<lparr>opt_ports := ports, opt_network := network\<rparr>)) selection
     = runContainerAdvanced js img (Some opts) selection
   \<and> opt_ports (formOptions js formData) = None
   \<and> opt_referencePorts (formOptions js formData) = Some (formLines (form_ports formData))"
proof -
  have order: "runCommandLine js img options =
      ''container run'' @ spec_runtimeFlags options @ spec_identityFlags options
        @ spec_resourceFlags js options @ spec_multiFlags options @ '' '' @ img
        @ spec_commandOverride options"
    by (rule runCommandLine_closed)
  have ignored: "runCommandLine js img
      (Some (opts\<lparr>opt_ports := ports, opt_referencePorts := referencePorts,
                  opt_network := network\<rparr>))
      = runCommandLine js img (Some opts)"
    by (rule runCommandLine_ignores)
  have typed: "runCommandLine js (form_image formData)
      (Some (formOptions js (formData\<lparr>form_ports := portsText\<rparr>)))
      = runCommandLine js (form_image formData) (Some (formOptions js formData))"
    by (simp only: formOptions_ports runCommandLine_ignores_reference_ports)
  have given: "snd (runContainerAdvanced js img
      (Some (opts\<lparr>opt_referencePorts := Some (port # morePorts)\<rparr>)) selection)
      = TerminalSendText ''Container Run'' (runCommandLine js img (Some opts))
        # ShowInformationMessage
            (''Container started! Use '' @ [CHR 0x27] @ ''container ls'' @ [CHR 0x27]
               @ '' to get the IP address, then access ports ''
               @ join_with '', '' (port # morePorts) @ '' directly on that IP.'')
            [''Show Container List'']
        # (if selection = Some ''Show Container List''
           then [TerminalSendText ''Container List'' ''container ls''] else [])"
    by (simp only: runContainerAdvanced_def snd_conv runCommandLine_ignores_reference_ports
        portsNotice_given)
  have empty: "snd (runContainerAdvanced js img
      (Some (opts\<lparr>opt_referencePorts := Some []\<rparr>)) selection)
      = [TerminalSendText ''Container Run'' (runCommandLine js img (Some opts))]"
    by (simp only: runContainerAdvanced_def snd_conv runCommandLine_ignores_reference_ports
        portsNotice_not_given)
  have absent: "snd (runContainerAdvanced js img
      (Some (opts\<lparr>opt_referencePorts := None\<rparr>)) selection)
      = [TerminalSendText ''Container Run'' (runCommandLine js img (Some opts))]"
    by (simp only: runContainerAdvanced_def snd_conv runCommandLine_ignores_reference_ports
        portsNotice_not_given)
  have bare: "snd (runContainerAdvanced js img None selection)
      = [TerminalSendText ''Container Run'' (''container run '' @ img)]"
    by (simp only: runContainerAdvanced_def snd_conv runCommandLine_no_options
        portsNotice_not_given)
  have unused: "runContainerAdvanced js img
      (Some (opts\<lparr>opt_ports := ports, opt_network := network\<rparr>)) selection
      = runContainerAdvanced js img (Some opts) selection"
    by (simp only: runContainerAdvanced_def runCommandLine_unused portsNotice_unused)
  have form: "opt_ports (formOptions js formData) = None"
    "opt_referencePorts (formOptions js formData) = Some (formLines (form_ports formData))"
    by (simp_all add: formOptions_def)
  show ?thesis
    by (intro conjI order ignored typed given empty absent bare unused form)
qed

theorem runContainerAdvanced_flag_order_witness:
  "runCommandLine example_numbers ''nginx:latest''
     (Some (noOptions\<lparr>opt_detach := Some True, opt_remove := Some True, opt_name := Some ''web'',
        opt_cpus := Some ''0.5'', opt_memory := Some ''1g'', opt_ports := Some [''8080:80''],
        opt_referencePorts := Some [''80'', ''443''], opt_network := Some ''host'',
        opt_dns := Some [''1.1.1.1'', ''8.8.8.8''], opt_volumes := Some [''/a:/b''],
        opt_env := Some [''K=V''], opt_labels := Some [''x=y''], opt_command := Some ''sh''\<rparr>))
   = ''container run --detach --rm --name web --cpus 0.5 --memory 1g --dns 1.1.1.1 --dns 8.8.8.8 -v /a:/b -e K=V -l x=y nginx:latest sh''
   \<and> snd (runContainerAdvanced example_numbers ''nginx:latest''
            (Some (noOptions\<lparr>opt_referencePorts := Some [''80'', ''443'']\<rparr>)) None)
     = [TerminalSendText ''Container Run'' ''container run nginx:latest'',
        ShowInformationMessage
          (''Container started! Use '' @ [CHR 0x27] @ ''container ls'' @ [CHR 0x27]
             @ '' to get the IP address, then access ports 80, 443 directly on that IP.'')
          [''Show Container List'']]"
proof -
  note line =
    runContainerAdvanced_flag_order
      [where js = example_numbers and img = "''nginx:latest''"
         and options = "Some (noOptions\<lparr>opt_detach := Some True, opt_remove := Some True,
           opt_name := Some ''web'', opt_cpus := Some ''0.5'', opt_memory := Some ''1g'',
           opt_ports := Some [''8080:80''], opt_referencePorts := Some [''80'', ''443''],
           opt_network := Some ''host'', opt_dns := Some [''1.1.1.1'', ''8.8.8.8''],
           opt_volumes := Some [''/a:/b''], opt_env := Some [''K=V''],
           opt_labels := Some [''x=y''], opt_command := Some ''sh''\<rparr>)",
       THEN conjunct1]
  note bare =
    runContainerAdvanced_flag_order
      [where js = example_numbers and img = "''nginx:latest''" and options = "Some noOptions",
       THEN conjunct1]
  note notice =
    runContainerAdvanced_flag_order
      [where js = example_numbers and img = "''nginx:latest''" and opts = noOptions
         and port = "''80''" and morePorts = "[''443'']" and selection = None,
       THEN conjunct2, THEN conjunct2, THEN conjunct2, THEN conjunct1]
  have plain: "runCommandLine example_numbers ''nginx:latest'' (Some noOptions)
      = ''container run nginx:latest''"
    using bare
    by (simp add: spec_runtimeFlags_def spec_identityFlags_def spec_resourceFlags_def
        spec_multiFlags_def spec_commandOverride_def spec_repeated_def field_def isSet_def
        truthy_def noOptions_def)
  have first: "runCommandLine example_numbers ''nginx:latest''
      (Some (noOptions\<lparr>opt_detach := Some True, opt_remove := Some True,
         opt_name := Some ''web'', opt_cpus := Some ''0.5'', opt_memory := Some ''1g'',
         opt_ports := Some [''8080:80''], opt_referencePorts := Some [''80'', ''443''],
         opt_network := Some ''host'', opt_dns := Some [''1.1.1.1'', ''8.8.8.8''],
         opt_volumes := Some [''/a:/b''], opt_env := Some [''K=V''],
         opt_labels := Some [''x=y''], opt_command := Some ''sh''\<rparr>))
      = ''container run --detach --rm --name web --cpus 0.5 --memory 1g --dns 1.1.1.1 --dns 8.8.8.8 -v /a:/b -e K=V -l x=y nginx:latest sh''"
    using line
    by (simp add: spec_runtimeFlags_def spec_identityFlags_def spec_resourceFlags_def
        spec_multiFlags_def spec_commandOverride_def spec_repeated_def field_def isSet_def
        truthy_def noOptions_def example_numbers_def)
  have second: "snd (runContainerAdvanced example_numbers ''nginx:latest''
      (Some (noOptions\<lparr>opt_referencePorts := Some [''80'', ''443'']\<rparr>)) None)
      = [TerminalSendText ''Container Run'' ''container run nginx:latest'',
         ShowInformationMessage
           (''Container started! Use '' @ [CHR 0x27] @ ''container ls'' @ [CHR 0x27]
              @ '' to get the IP address, then access ports 80, 443 directly on that IP.'')
           [''Show Container List'']]"
    using notice by (simp add: plain)
  show ?thesis
    using first second by (rule conjI)
qed
section \<open>The detail rows of a listed container\<close>

text \<open>
  C9. When the lower-cased image reference of a container contains both \<^verbatim>\<open>redis\<close> and
  \<^verbatim>\<open>nginx\<close>, \<^verbatim>\<open>getConnectionExamples\<close> returns the Redis CLI example alone: no example
  in its result has the label of the web server.
\<close>

theorem redis_before_nginx:
  assumes "str_includes (toLowerCase (container_image container)) ''redis''"
    and "str_includes (toLowerCase (container_image container)) ''nginx''"
  shows "getConnectionExamples container =
           [example label_redis
              (''redis-cli -h '' @ template (container_ipAddress container) @ '' -p 6379'')]
         \<and> example label_webServer
             (''curl http://'' @ template (container_ipAddress container) @ '':80'')
             \<notin> set (getConnectionExamples container)
         \<and> list_all (\<lambda>e. example_label e \<noteq> label_webServer) (getConnectionExamples container)"
  using assms(1)
  by (simp add: getConnectionExamples_def Let_def example_def label_redis_def label_webServer_def)

theorem redis_before_nginx_witness:
  "str_includes (toLowerCase ''my-redis-nginx:latest'') ''redis''
   \<and> str_includes (toLowerCase ''my-redis-nginx:latest'') ''nginx''
   \<and> getConnectionExamples (example_container\<lparr>container_image := ''my-redis-nginx:latest''\<rparr>) =
       [example label_redis ''redis-cli -h 10.0.0.5 -p 6379'']"
proof -
  have r: "str_includes (toLowerCase ''my-redis-nginx:latest'') ''redis''" by code_simp
  have n: "str_includes (toLowerCase ''my-redis-nginx:latest'') ''nginx''" by code_simp
  show ?thesis
    using r n
      redis_before_nginx [of "example_container\<lparr>container_image := ''my-redis-nginx:latest''\<rparr>"]
    by (simp add: example_container_def)
qed

lemma created_row:
  "container_created c = ''unknown'' \<Longrightarrow>
   getContainerDetails c =
     butlast (getContainerDetails c) @ [detailItem label_created ''unknown'' ''created'' None]"
  by (simp add: getContainerDetails_def Let_def butlast_append)

text \<open>
  C10. Every record \<^verbatim>\<open>listContainers\<close> returns has a name that is not empty, the empty
  text as ports and the lower-case text \<^verbatim>\<open>unknown\<close> as created, which is not the
  \<^verbatim>\<open>Unknown\<close> the detail view compares with; so the last row \<^verbatim>\<open>getContainerDetails\<close>
  gives for the record is the Created row showing \<^verbatim>\<open>unknown\<close>. The name of a record is
  the hostname of its JSON entry, or the record's id when the entry has no hostname or
  an empty one.
\<close>

theorem listed_container_fields:
  assumes "c \<in> set (fst (listContainers exec parse all))"
  shows "container_name c \<noteq> []
         \<and> container_ports c = Some []
         \<and> container_created c = ''unknown''
         \<and> container_created c \<noteq> ''Unknown''
         \<and> last (getContainerDetails c) = detailItem label_created ''unknown'' ''created'' None
         \<and> detailItem label_created ''unknown'' ''created'' None \<in> set (getContainerDetails c)
         \<and> container_name (toContainer table raw)
             = or_default (case raw_configuration raw of
                             None \<Rightarrow> None | Some config \<Rightarrow> cfg_hostname config)
                 (container_id (toContainer table raw))"
proof -
  obtain t r where c: "c = toContainer t r"
    using assms
    by (auto simp: listContainers_def listContainers_try_def Let_def
        split: sum.splits prod.splits)
  have created: "container_created c = ''unknown''"
    by (simp add: c toContainer_def Let_def)
  have name: "container_name c \<noteq> []"
    by (simp add: c toContainer_def Let_def or_default_not_Nil)
  have ports: "container_ports c = Some []"
    by (simp add: c toContainer_def Let_def)
  have row: "getContainerDetails c =
      butlast (getContainerDetails c) @ [detailItem label_created ''unknown'' ''created'' None]"
    using created by (rule created_row)
  have final: "last (getContainerDetails c) = detailItem label_created ''unknown'' ''created'' None"
    by (subst row) simp
  have shown: "detailItem label_created ''unknown'' ''created'' None \<in> set (getContainerDetails c)"
    by (subst row) simp
  have fallback: "container_name (toContainer table raw)
      = or_default (case raw_configuration raw of
                      None \<Rightarrow> None | Some config \<Rightarrow> cfg_hostname config)
          (container_id (toContainer table raw))"
    by (simp add: toContainer_def Let_def emptyConfiguration_def split: option.splits)
  show ?thesis
    using created name ports final shown fallback by simp
qed

theorem listed_container_fields_witness:
  "example_container \<in> set (fst (listContainers example_shell example_parse False))
   \<and> container_name example_container = ''web1''
   \<and> container_ports example_container = Some []
   \<and> container_created example_container = ''unknown''
   \<and> last (getContainerDetails example_container)
       = detailItem label_created ''unknown'' ''created'' None"
proof -
  have listed: "example_container \<in> set (fst (listContainers example_shell example_parse False))"
    by (simp add: example_listing)
  show ?thesis
    using listed listed_container_fields [OF listed]
    by (simp add: example_container_def)
qed

end
